theory Spec2Isabelle
  imports Complex_Main
begin

section \<open>Python and numpy primitives used by caiman/motion\_correction.py\<close>

text \<open>
  Exceptions of the source are values: every function that can raise returns
  \<open>py_error + 'a\<close>, with \<open>Inl\<close> for the exception.  \<open>PlainException\<close> is the
  bare \<^verbatim>\<open>raise Exception(...)\<close> of the source, \<open>Cv2Error\<close> the \<^verbatim>\<open>cv2.error\<close> of OpenCV.
\<close>

datatype py_error =
  ValueError | NotImplementedError | IndexError | TypeError | UnboundLocalError | Cv2Error |
  PlainException

text \<open>
  \<^verbatim>\<open>range(start, stop, step)\<close>: a zero step raises ValueError; the number of elements is
  the one CPython computes.
\<close>

definition range_len :: "int \<Rightarrow> int \<Rightarrow> int \<Rightarrow> nat" where
  "range_len start stop step =
     (if 0 < step then (if start < stop then nat ((stop - start - 1) div step + 1) else 0)
      else (if stop < start then nat ((start - stop - 1) div (- step) + 1) else 0))"

definition py_range :: "int \<Rightarrow> int \<Rightarrow> int \<Rightarrow> py_error + int list" where
  "py_range start stop step =
     (if step = 0 then Inl ValueError
      else Inr (map (\<lambda>k. start + int k * step) [0..<range_len start stop step]))"

text \<open>
  A slice bound of Python on a sequence of length \<open>n\<close>: a negative bound counts from
  the end, and every bound is clamped into \<open>0..n\<close>.  \<open>xs[a:b]\<close> is \<open>py_slice xs a b\<close>.
\<close>

definition slice_idx :: "nat \<Rightarrow> int \<Rightarrow> nat" where
  "slice_idx n i = (if i < 0 then nat (max 0 (i + int n)) else min (nat i) n)"

definition py_slice :: "'a list \<Rightarrow> int \<Rightarrow> int \<Rightarrow> 'a list" where
  "py_slice xs a b =
     (let lo = slice_idx (length xs) a; hi = slice_idx (length xs) b
      in take (hi - lo) (drop lo xs))"

text \<open>
  A 2D numpy array is the list of its rows.  \<open>is_array2 h w a\<close> says that \<open>a\<close> is a
  well-formed array of shape \<open>(h, w)\<close>.  \<open>a[x:x', y:y']\<close> is \<open>slice2 a x x' y y'\<close>.
\<close>

type_synonym 'a array2 = "'a list list"

definition is_array2 :: "nat \<Rightarrow> nat \<Rightarrow> 'a array2 \<Rightarrow> bool" where
  "is_array2 h w a = (length a = h \<and> list_all (\<lambda>r. length r = w) a)"

definition shape2 :: "'a array2 \<Rightarrow> nat \<times> nat" where
  "shape2 a = (length a, case a of [] \<Rightarrow> 0 | r # _ \<Rightarrow> length r)"

definition slice2 :: "'a array2 \<Rightarrow> int \<Rightarrow> int \<Rightarrow> int \<Rightarrow> int \<Rightarrow> 'a array2" where
  "slice2 a x x' y y' = map (\<lambda>r. py_slice r y y') (py_slice a x x')"

section \<open>Patch grid: sliding\_window\<close>

text \<open>
  \<^verbatim>\<open>
  def sliding_window(image, overlaps, strides):
      windowSize = np.add(overlaps, strides)
      range_1 = list(range(0, image.shape[0] - windowSize[0], strides[0])) + [image.shape[0] - windowSize[0]]
      range_2 = list(range(0, image.shape[1] - windowSize[1], strides[1])) + [image.shape[1] - windowSize[1]]
      for dim_1, x in enumerate(range_1):
          for dim_2, y in enumerate(range_2):
              yield (dim_1, dim_2, x, y, image[x:x + windowSize[0], y:y + windowSize[1]])
  \<close>
  The generator is modelled by the list of the tuples it yields; both ranges are built
  before the first tuple is produced, so a zero stride raises before anything is yielded.
  \<open>tiles_of\<close> is the nested loop over the two enumerated ranges.
\<close>

type_synonym 'a tile = "nat \<times> nat \<times> int \<times> int \<times> 'a array2"

definition grid_range :: "nat \<Rightarrow> int \<Rightarrow> int \<Rightarrow> py_error + int list" where
  "grid_range extent window stride =
     (case py_range 0 (int extent - window) stride of
        Inl e \<Rightarrow> Inl e
      | Inr r \<Rightarrow> Inr (r @ [int extent - window]))"

definition tiles_of :: "'a array2 \<Rightarrow> int \<Rightarrow> int \<Rightarrow> int list \<Rightarrow> int list \<Rightarrow> 'a tile list" where
  "tiles_of img n0 n1 range_1 range_2 =
     concat (map (\<lambda>(dim_1, x). map (\<lambda>(dim_2, y).
                 (dim_1, dim_2, x, y, slice2 img x (x + n0) y (y + n1)))
                 (enumerate 0 range_2)) (enumerate 0 range_1))"

definition sliding_window ::
  "'a array2 \<Rightarrow> int \<times> int \<Rightarrow> int \<times> int \<Rightarrow> py_error + 'a tile list" where
  "sliding_window img overlaps strides =
     (let windowSize = (fst overlaps + fst strides, snd overlaps + snd strides) in
      case grid_range (fst (shape2 img)) (fst windowSize) (fst strides) of
        Inl e \<Rightarrow> Inl e
      | Inr range_1 \<Rightarrow>
      (case grid_range (snd (shape2 img)) (snd windowSize) (snd strides) of
        Inl e \<Rightarrow> Inl e
      | Inr range_2 \<Rightarrow>
          Inr (tiles_of img (fst windowSize) (snd windowSize) range_1 range_2)))"


section \<open>Registration primitive: register\_translation\<close>

text \<open>
  The arrays handed to \<^verbatim>\<open>register_translation\<close> are values of a type \<open>'a\<close>; what
  the function asks of numpy and OpenCV on them is a record of functions:
  \<^item> \<open>shape_of\<close> is \<^verbatim>\<open>.shape\<close>;
  \<^item> \<open>dft\<close> is \<^verbatim>\<open>fftn(x, flags=cv2.DFT_COMPLEX_OUTPUT + cv2.DFT_SCALE)\<close> with the two
    channels recombined into one complex array (\<open>None\<close> when OpenCV rejects the input);
  \<^item> \<open>cross_correlation_abs sf tf\<close> is \<^verbatim>\<open>np.abs(cross_correlation)\<close>, the magnitude of
    the inverse transform of \<^verbatim>\<open>src_freq * target_freq.conj()\<close>, as a function of the
    index vector;
  \<^item> \<open>phase_int sf tf\<close> is \<^verbatim>\<open>_compute_phasediff(cross_correlation.max())\<close>;
  \<^item> \<open>refine sf tf shifts upsample_factor\<close> is the branch \<^verbatim>\<open>upsample_factor != 1\<close>:
    the shifts after the matrix-multiply DFT of \<^verbatim>\<open>_upsampled_dft\<close> around the
    whole-pixel estimate, with the phase of the refined maximum.
  These are floating-point computations on complex arrays; the control flow around them
  (checks, masking of the search window, location of the maximum, wrap-around of the
  shift and the degenerate-axis rule) is modelled as written.  The model covers
  \<^verbatim>\<open>opencv = True\<close> (set at module level) and no CUDA.
\<close>

record 'a numerics =
  shape_of :: "'a \<Rightarrow> nat list"
  dft :: "'a \<Rightarrow> 'a option"
  cross_correlation_abs :: "'a \<Rightarrow> 'a \<Rightarrow> nat list \<Rightarrow> real"
  phase_int :: "'a \<Rightarrow> 'a \<Rightarrow> real"
  refine :: "'a \<Rightarrow> 'a \<Rightarrow> real list \<Rightarrow> int \<Rightarrow> real list \<times> real"

text \<open>\<^verbatim>\<open>str.lower()\<close> on ASCII letters.\<close>

definition lower_char :: "char \<Rightarrow> char" where
  "lower_char c =
     (let n = (of_char c :: nat) in if 65 \<le> n \<and> n \<le> 90 then char_of (n + 32) else c)"

definition lower :: "string \<Rightarrow> string" where
  "lower s = map lower_char s"

text \<open>
  \<^verbatim>\<open>a[lo:hi, :] = 0\<close> and \<^verbatim>\<open>a[:, lo:hi] = 0\<close> on an array given by its shape and
  its values at index vectors: the entries whose index along \<open>axis\<close> lies in the slice
  become 0.  \<open>None\<close> is an omitted slice bound.
\<close>

definition slice_lo :: "nat \<Rightarrow> int option \<Rightarrow> nat" where
  "slice_lo n lo = (case lo of None \<Rightarrow> 0 | Some a \<Rightarrow> slice_idx n a)"

definition slice_hi :: "nat \<Rightarrow> int option \<Rightarrow> nat" where
  "slice_hi n hi = (case hi of None \<Rightarrow> n | Some b \<Rightarrow> slice_idx n b)"

definition in_slice :: "nat \<Rightarrow> int option \<Rightarrow> int option \<Rightarrow> nat \<Rightarrow> bool" where
  "in_slice n lo hi i = (slice_lo n lo \<le> i \<and> i < slice_hi n hi)"

definition zero_slice ::
  "nat list \<Rightarrow> nat \<Rightarrow> int option \<Rightarrow> int option \<Rightarrow> (nat list \<Rightarrow> real) \<Rightarrow> nat list \<Rightarrow> real" where
  "zero_slice shape axis lo hi a =
     (\<lambda>idx. if in_slice (shape ! axis) lo hi (idx ! axis) then 0 else a idx)"

text \<open>
  \<^verbatim>\<open>
  if (shifts_lb is not None) or (shifts_ub is not None):
      if (shifts_lb[0] < 0) and (shifts_ub[0] >= 0):
          new_cross_corr[shifts_ub[0]:shifts_lb[0], :] = 0
      else:
          new_cross_corr[:shifts_lb[0], :] = 0
          new_cross_corr[shifts_ub[0]:, :] = 0
      if (shifts_lb[1] < 0) and (shifts_ub[1] >= 0):
          new_cross_corr[:, shifts_ub[1]:shifts_lb[1]] = 0
      else:
          new_cross_corr[:, :shifts_lb[1]] = 0
          new_cross_corr[:, shifts_ub[1]:] = 0
  else:
      new_cross_corr[max_shifts[0]:-max_shifts[0], :] = 0
      new_cross_corr[:, max_shifts[1]:-max_shifts[1]] = 0
  \<close>
  Subscripting \<^verbatim>\<open>None\<close> raises TypeError; two subscripts on an array of rank below 2
  raise IndexError.
\<close>

definition mask_bounds ::
  "nat list \<Rightarrow> nat \<Rightarrow> int \<Rightarrow> int \<Rightarrow> (nat list \<Rightarrow> real) \<Rightarrow> nat list \<Rightarrow> real" where
  "mask_bounds shape axis lb ub a =
     (if lb < 0 \<and> 0 \<le> ub then zero_slice shape axis (Some ub) (Some lb) a
      else zero_slice shape axis (Some ub) None (zero_slice shape axis None (Some lb) a))"

definition mask_cross_corr ::
  "nat list \<Rightarrow> (int \<times> int) option \<Rightarrow> (int \<times> int) option \<Rightarrow> int \<times> int \<Rightarrow>
   (nat list \<Rightarrow> real) \<Rightarrow> py_error + (nat list \<Rightarrow> real)" where
  "mask_cross_corr shape shifts_lb shifts_ub max_shifts a =
     (case (shifts_lb, shifts_ub) of
        (None, None) \<Rightarrow>
          if length shape < 2 then Inl IndexError
          else Inr (zero_slice shape 1 (Some (snd max_shifts)) (Some (- snd max_shifts))
                     (zero_slice shape 0 (Some (fst max_shifts)) (Some (- fst max_shifts)) a))
      | (None, Some ub) \<Rightarrow> Inl TypeError
      | (Some lb, None) \<Rightarrow>
          if fst lb < 0 then Inl TypeError
          else if length shape < 2 then Inl IndexError
          else Inl TypeError
      | (Some lb, Some ub) \<Rightarrow>
          if length shape < 2 then Inl IndexError
          else Inr (mask_bounds shape 1 (snd lb) (snd ub) (mask_bounds shape 0 (fst lb) (fst ub) a)))"

text \<open>
  \<^verbatim>\<open>np.unravel_index(np.argmax(a), shape)\<close>: the first index vector, in row-major
  order, at which the maximum is attained; ValueError on an empty array.
\<close>

definition all_indices :: "nat list \<Rightarrow> nat list list" where
  "all_indices shape = product_lists (map (\<lambda>n. [0..<n]) shape)"

definition argmax :: "nat list \<Rightarrow> (nat list \<Rightarrow> real) \<Rightarrow> py_error + nat list" where
  "argmax shape a =
     (case all_indices shape of
        [] \<Rightarrow> Inl ValueError
      | i # rest \<Rightarrow> Inr (foldl (\<lambda>best j. if a best < a j then j else best) i rest))"

text \<open>
  \<^verbatim>\<open>
  midpoints = np.array([np.fix(axis_size//2) for axis_size in shape])
  shifts = np.array(maxima, dtype=np.float64)
  shifts[shifts > midpoints] -= np.array(shape)[shifts > midpoints]
  \<close>
\<close>

definition wrap_shifts :: "nat list \<Rightarrow> nat list \<Rightarrow> real list" where
  "wrap_shifts shape maxima =
     map2 (\<lambda>m n. if real (n div 2) < real m then real m - real n else real m) maxima shape"

text \<open>
  \<^verbatim>\<open>
  for dim in range(src_freq.ndim):
      if shape[dim] == 1:
          shifts[dim] = 0
  \<close>
  The second argument of \<open>zero_degenerate\<close> is the loop variable \<^verbatim>\<open>dim\<close>; an
  assignment past the end of \<^verbatim>\<open>shifts\<close> would raise IndexError.
\<close>

fun zero_degenerate :: "nat list \<Rightarrow> nat \<Rightarrow> real list \<Rightarrow> py_error + real list" where
  "zero_degenerate [] d shifts = Inr shifts"
| "zero_degenerate (n # shape) d shifts =
     (if n = 1 then
        (if d < length shifts then zero_degenerate shape (Suc d) (shifts[d := 0])
         else Inl IndexError)
      else zero_degenerate shape (Suc d) shifts)"

definition to_frequency :: "'a numerics \<Rightarrow> string \<Rightarrow> 'a \<Rightarrow> 'a \<Rightarrow> py_error + 'a \<times> 'a" where
  "to_frequency N space src_image target_image =
     (if lower space = ''fourier'' then Inr (src_image, target_image)
      else if lower space = ''real'' then
        (case dft N src_image of
           None \<Rightarrow> Inl Cv2Error
         | Some src_freq \<Rightarrow>
           (case dft N target_image of
              None \<Rightarrow> Inl Cv2Error
            | Some target_freq \<Rightarrow> Inr (src_freq, target_freq)))
      else Inl ValueError)"

definition register_translation ::
  "'a numerics \<Rightarrow> 'a \<Rightarrow> 'a \<Rightarrow> int \<Rightarrow> string \<Rightarrow> (int \<times> int) option \<Rightarrow> (int \<times> int) option \<Rightarrow>
   int \<times> int \<Rightarrow> py_error + real list \<times> 'a \<times> real" where
  "register_translation N src_image target_image upsample_factor space shifts_lb shifts_ub max_shifts =
     (if shape_of N src_image \<noteq> shape_of N target_image then Inl ValueError
      else if length (shape_of N src_image) \<noteq> 2 \<and> 1 < upsample_factor then Inl NotImplementedError
      else
        case to_frequency N space src_image target_image of
          Inl e \<Rightarrow> Inl e
        | Inr (src_freq, target_freq) \<Rightarrow>
          let shape = shape_of N src_freq in
          (case mask_cross_corr shape shifts_lb shifts_ub max_shifts
                  (cross_correlation_abs N src_freq target_freq) of
             Inl e \<Rightarrow> Inl e
           | Inr new_cross_corr \<Rightarrow>
             (case argmax shape new_cross_corr of
                Inl e \<Rightarrow> Inl e
              | Inr maxima \<Rightarrow>
                let shifts = wrap_shifts shape maxima;
                    (shifts, phasediff) =
                      (if upsample_factor = 1 then (shifts, phase_int N src_freq target_freq)
                       else refine N src_freq target_freq shifts upsample_factor)
                in (case zero_degenerate shape 0 shifts of
                      Inl e \<Rightarrow> Inl e
                    | Inr shifts \<Rightarrow> Inr (shifts, src_freq, phasediff)))))"

text \<open>
  A backend on which the model can be run: an array is its shape with its entries in
  row-major order, the transform is the identity, and the cross-correlation magnitude
  at an index is the magnitude of the product of the two entries there.
\<close>

definition flat_index :: "nat list \<Rightarrow> nat list \<Rightarrow> nat" where
  "flat_index shape idx = foldl (\<lambda>acc (n, i). acc * n + i) 0 (zip shape idx)"

definition plain_numerics :: "(nat list \<times> real list) numerics" where
  "plain_numerics =
     \<lparr> shape_of = fst,
       dft = Some,
       cross_correlation_abs =
         (\<lambda>a b idx. \<bar>snd a ! flat_index (fst a) idx * snd b ! flat_index (fst b) idx\<bar>),
       phase_int = (\<lambda>a b. 0),
       refine = (\<lambda>a b shifts upsample_factor. (shifts, 0)) \<rparr>"

section \<open>Floating-point values\<close>

text \<open>
  A pixel is a float: a real number, an infinity or not-a-number.  Rounding is not
  modelled (finite floats are reals); what is modelled is how numpy treats NaN and
  the infinities in comparisons, \<^verbatim>\<open>np.minimum\<close>, \<^verbatim>\<open>np.maximum\<close>, \<^verbatim>\<open>np.clip\<close>,
  \<^verbatim>\<open>np.nanmin\<close> and \<^verbatim>\<open>np.nanmax\<close>.
\<close>

datatype fl = Fin real | PInf | NInf | NaN

fun fl_le :: "fl \<Rightarrow> fl \<Rightarrow> bool" where
  "fl_le NaN y = False"
| "fl_le x NaN = False"
| "fl_le NInf y = True"
| "fl_le x PInf = True"
| "fl_le PInf y = False"
| "fl_le x NInf = False"
| "fl_le (Fin a) (Fin b) = (a \<le> b)"

definition isnan :: "fl \<Rightarrow> bool" where
  "isnan x = (x = NaN)"

definition np_minimum :: "fl \<Rightarrow> fl \<Rightarrow> fl" where
  "np_minimum a b = (if isnan a \<or> isnan b then NaN else if fl_le a b then a else b)"

definition np_maximum :: "fl \<Rightarrow> fl \<Rightarrow> fl" where
  "np_maximum a b = (if isnan a \<or> isnan b then NaN else if fl_le a b then b else a)"

definition np_clip :: "fl \<Rightarrow> fl \<Rightarrow> fl \<Rightarrow> fl" where
  "np_clip a a_min a_max = np_minimum (np_maximum a a_min) a_max"

text \<open>
  \<^verbatim>\<open>np.nanmin(a)\<close> and \<^verbatim>\<open>np.nanmax(a)\<close> over all entries: the NaNs are skipped, an
  array of NaNs only gives NaN, and an array without entries raises ValueError.
\<close>

definition nanmin :: "fl array2 \<Rightarrow> py_error + fl" where
  "nanmin a =
     (case concat a of
        [] \<Rightarrow> Inl ValueError
      | _ # _ \<Rightarrow>
        (case filter (\<lambda>x. \<not> isnan x) (concat a) of
           [] \<Rightarrow> Inr NaN
         | y # ys \<Rightarrow> Inr (foldl np_minimum y ys)))"

definition nanmax :: "fl array2 \<Rightarrow> py_error + fl" where
  "nanmax a =
     (case concat a of
        [] \<Rightarrow> Inl ValueError
      | _ # _ \<Rightarrow>
        (case filter (\<lambda>x. \<not> isnan x) (concat a) of
           [] \<Rightarrow> Inr NaN
         | y # ys \<Rightarrow> Inr (foldl np_maximum y ys)))"

section \<open>Slice assignment on 2D arrays\<close>

text \<open>
  \<open>fill_rows a lo hi v\<close> is \<^verbatim>\<open>a[lo:hi, :] = v\<close> and \<open>fill_cols a lo hi v\<close> is
  \<^verbatim>\<open>a[:, lo:hi] = v\<close> for a scalar \<open>v\<close>; \<open>set_rows a lo hi r\<close> is \<^verbatim>\<open>a[lo:hi] = r\<close> for a
  row \<open>r\<close>, and \<open>set_cols a lo hi c\<close> is \<^verbatim>\<open>a[:, lo:hi] = c[:, np.newaxis]\<close> for a column
  \<open>c\<close>.  \<open>py_index n i\<close> is the position that index \<open>i\<close> addresses in a sequence of
  length \<open>n\<close> (\<open>None\<close>: IndexError).
\<close>

definition fill_rows :: "'a array2 \<Rightarrow> int option \<Rightarrow> int option \<Rightarrow> 'a \<Rightarrow> 'a array2" where
  "fill_rows a lo hi v =
     map (\<lambda>(i, r). if in_slice (length a) lo hi i then map (\<lambda>_. v) r else r) (enumerate 0 a)"

definition fill_cols :: "'a array2 \<Rightarrow> int option \<Rightarrow> int option \<Rightarrow> 'a \<Rightarrow> 'a array2" where
  "fill_cols a lo hi v =
     map (\<lambda>r. map (\<lambda>(j, x). if in_slice (length r) lo hi j then v else x) (enumerate 0 r)) a"

definition set_rows :: "'a array2 \<Rightarrow> int option \<Rightarrow> int option \<Rightarrow> 'a list \<Rightarrow> 'a array2" where
  "set_rows a lo hi row =
     map (\<lambda>(i, r). if in_slice (length a) lo hi i then row else r) (enumerate 0 a)"

definition set_cols :: "'a array2 \<Rightarrow> int option \<Rightarrow> int option \<Rightarrow> 'a list \<Rightarrow> 'a array2" where
  "set_cols a lo hi col =
     map (\<lambda>(i, r). map (\<lambda>(j, x). if in_slice (length r) lo hi j then col ! i else x)
                      (enumerate 0 r)) (enumerate 0 a)"


definition py_index :: "nat \<Rightarrow> int \<Rightarrow> nat option" where
  "py_index n i =
     (let j = (if i < 0 then i + int n else i)
      in if 0 \<le> j \<and> j < int n then Some (nat j) else None)"

definition get_row :: "'a array2 \<Rightarrow> int \<Rightarrow> py_error + 'a list" where
  "get_row a i = (case py_index (length a) i of None \<Rightarrow> Inl IndexError | Some k \<Rightarrow> Inr (a ! k))"

definition get_col :: "'a array2 \<Rightarrow> int \<Rightarrow> py_error + 'a list" where
  "get_col a j =
     (case py_index (snd (shape2 a)) j of
        None \<Rightarrow> Inl IndexError
      | Some k \<Rightarrow> Inr (map (\<lambda>r. r ! k) a))"

section \<open>Shift applicator, fast path: apply\_shift\_iteration\<close>

text \<open>
  \<^verbatim>\<open>
  def apply_shift_iteration(img, shift, border_nan:bool=False, border_type=cv2.BORDER_REFLECT):
      sh_x_n, sh_y_n = shift
      w_i, h_i = img.shape
      M = np.float32([[1, 0, sh_y_n], [0, 1, sh_x_n]])
      min_, max_ = np.nanmin(img), np.nanmax(img)
      img = np.clip(cv2.warpAffine(img, M, (h_i, w_i),
                                   flags=cv2.INTER_CUBIC, borderMode=border_type), min_, max_)
      if border_nan is not False:
          max_w, max_h, min_w, min_h = 0, 0, 0, 0
          max_h, max_w = np.ceil(np.maximum((max_h, max_w), shift)).astype(int)
          min_h, min_w = np.floor(np.minimum((min_h, min_w), shift)).astype(int)
          if border_nan is True:
              img[:max_h, :] = np.nan
              if min_h < 0:
                  img[min_h:, :] = np.nan
              img[:, :max_w] = np.nan
              if min_w < 0:
                  img[:, min_w:] = np.nan
          elif border_nan == 'min':
              img[:max_h, :] = min_
              if min_h < 0:
                  img[min_h:, :] = min_
              img[:, :max_w] = min_
              if min_w < 0:
                  img[:, min_w:] = min_
          elif border_nan == 'copy':
              if max_h > 0:
                  img[:max_h] = img[max_h]
              if min_h < 0:
                  img[min_h:] = img[min_h-1]
              if max_w > 0:
                  img[:, :max_w] = img[:, max_w, np.newaxis]
              if min_w < 0:
                  img[:, min_w:] = img[:, min_w-1, np.newaxis]
      return img
  \<close>
  \<^verbatim>\<open>cv2.warpAffine\<close> with cubic interpolation is the parameter \<open>warpAffine\<close>; nothing is
  assumed of the values it returns.  The shift is a pair of finite numbers.  A value of
  \<^verbatim>\<open>border_nan\<close> other than \<^verbatim>\<open>True\<close>, \<^verbatim>\<open>'min'\<close> and \<^verbatim>\<open>'copy'\<close> leaves the image as it
  is, like \<^verbatim>\<open>False\<close>.  \<open>copy_row_if c img i lo hi\<close> is \<^verbatim>\<open>if c: img[lo:hi] = img[i]\<close>, and
  \<open>copy_col_if\<close> the same on columns.
\<close>

datatype border_mode = BorderFalse | BorderTrue | BorderMin | BorderCopy

definition fill_border :: "fl array2 \<Rightarrow> int \<Rightarrow> int \<Rightarrow> int \<Rightarrow> int \<Rightarrow> fl \<Rightarrow> fl array2" where
  "fill_border img max_h max_w min_h min_w v =
     (let img = fill_rows img None (Some max_h) v;
          img = (if min_h < 0 then fill_rows img (Some min_h) None v else img);
          img = fill_cols img None (Some max_w) v;
          img = (if min_w < 0 then fill_cols img (Some min_w) None v else img)
      in img)"

definition copy_row_if ::
  "bool \<Rightarrow> 'a array2 \<Rightarrow> int \<Rightarrow> int option \<Rightarrow> int option \<Rightarrow> py_error + 'a array2" where
  "copy_row_if c img i lo hi =
     (if c then (case get_row img i of Inl e \<Rightarrow> Inl e | Inr r \<Rightarrow> Inr (set_rows img lo hi r))
      else Inr img)"

definition copy_col_if ::
  "bool \<Rightarrow> 'a array2 \<Rightarrow> int \<Rightarrow> int option \<Rightarrow> int option \<Rightarrow> py_error + 'a array2" where
  "copy_col_if c img j lo hi =
     (if c then (case get_col img j of Inl e \<Rightarrow> Inl e | Inr col \<Rightarrow> Inr (set_cols img lo hi col))
      else Inr img)"

definition copy_border :: "'a array2 \<Rightarrow> int \<Rightarrow> int \<Rightarrow> int \<Rightarrow> int \<Rightarrow> py_error + 'a array2" where
  "copy_border img max_h max_w min_h min_w =
     (case copy_row_if (0 < max_h) img max_h None (Some max_h) of
        Inl e \<Rightarrow> Inl e
      | Inr img \<Rightarrow>
     (case copy_row_if (min_h < 0) img (min_h - 1) (Some min_h) None of
        Inl e \<Rightarrow> Inl e
      | Inr img \<Rightarrow>
     (case copy_col_if (0 < max_w) img max_w None (Some max_w) of
        Inl e \<Rightarrow> Inl e
      | Inr img \<Rightarrow> copy_col_if (min_w < 0) img (min_w - 1) (Some min_w) None)))"

definition apply_shift_iteration ::
  "(fl array2 \<Rightarrow> real \<times> real \<Rightarrow> fl array2) \<Rightarrow> fl array2 \<Rightarrow> real \<times> real \<Rightarrow> border_mode \<Rightarrow>
   py_error + fl array2" where
  "apply_shift_iteration warpAffine img shift border_nan =
     (case nanmin img of
        Inl e \<Rightarrow> Inl e
      | Inr min_ \<Rightarrow>
     (case nanmax img of
        Inl e \<Rightarrow> Inl e
      | Inr max_ \<Rightarrow>
        let img = map (map (\<lambda>x. np_clip x min_ max_)) (warpAffine img shift);
            max_h = \<lceil>max 0 (fst shift)\<rceil>; max_w = \<lceil>max 0 (snd shift)\<rceil>;
            min_h = \<lfloor>min 0 (fst shift)\<rfloor>; min_w = \<lfloor>min 0 (snd shift)\<rfloor>
        in (case border_nan of
              BorderFalse \<Rightarrow> Inr img
            | BorderTrue \<Rightarrow> Inr (fill_border img max_h max_w min_h min_w NaN)
            | BorderMin \<Rightarrow> Inr (fill_border img max_h max_w min_h min_w min_)
            | BorderCopy \<Rightarrow> copy_border img max_h max_w min_h min_w)))"

section \<open>Blending weights: create\_weight\_matrix\_for\_blending\<close>

text \<open>
  \<^verbatim>\<open>
  def create_weight_matrix_for_blending(img, overlaps, strides):
      shapes = np.add(strides, overlaps)
      max_grid_1, max_grid_2 = np.max(
          np.array([it[:2] for it in sliding_window(img, overlaps, strides)]), 0)
      for grid_1, grid_2, _, _, _ in sliding_window(img, overlaps, strides):
          weight_mat = np.ones(shapes)
          if grid_1 > 0:
              weight_mat[:overlaps[0], :] = np.linspace(0, 1, overlaps[0])[:, None]
          if grid_1 < max_grid_1:
              weight_mat[-overlaps[0]:, :] = np.linspace(1, 0, overlaps[0])[:, None]
          if grid_2 > 0:
              weight_mat[:, :overlaps[1]] = weight_mat[:, :overlaps[1]] * np.linspace(0, 1, overlaps[1])[None, :]
          if grid_2 < max_grid_2:
              weight_mat[:, -overlaps[1]:] = weight_mat[:, -overlaps[1]:] * np.linspace(1, 0, overlaps[1])[None, :]
          yield weight_mat
  \<close>
  Weights are reals.  \<^verbatim>\<open>np.ones\<close> and \<^verbatim>\<open>np.linspace\<close> raise ValueError on a negative
  size; an assignment raises ValueError when the right-hand side has neither one entry
  nor as many entries as the slice it is assigned to (numpy's broadcasting rule).
  The generator is modelled by the list of the matrices it yields, or the exception
  that consuming it raises.
\<close>

definition np_ones :: "int \<times> int \<Rightarrow> py_error + real array2" where
  "np_ones shapes =
     (if fst shapes < 0 \<or> snd shapes < 0 then Inl ValueError
      else Inr (replicate (nat (fst shapes)) (replicate (nat (snd shapes)) 1)))"

definition linspace :: "real \<Rightarrow> real \<Rightarrow> int \<Rightarrow> py_error + real list" where
  "linspace start stop num =
     (if num < 0 then Inl ValueError
      else if num = 1 then Inr [start]
      else Inr (map (\<lambda>k. start + real k * ((stop - start) / real_of_int (num - 1))) [0..<nat num]))"

definition broadcastable :: "'a list \<Rightarrow> nat \<Rightarrow> bool" where
  "broadcastable vs k = (length vs = k \<or> length vs = 1)"

definition broadcast_nth :: "'a list \<Rightarrow> nat \<Rightarrow> 'a" where
  "broadcast_nth vs k = (if length vs = 1 then vs ! 0 else vs ! k)"

text \<open>\<^verbatim>\<open>a[lo:hi, :] = col[:, None]\<close>\<close>

definition assign_rows ::
  "real array2 \<Rightarrow> int option \<Rightarrow> int option \<Rightarrow> real list \<Rightarrow> py_error + real array2" where
  "assign_rows a lo hi col =
     (let s = slice_lo (length a) lo; e = slice_hi (length a) hi in
      if broadcastable col (e - s) then
        Inr (map (\<lambda>(i, r). if s \<le> i \<and> i < e then map (\<lambda>_. broadcast_nth col (i - s)) r else r)
               (enumerate 0 a))
      else Inl ValueError)"

text \<open>\<^verbatim>\<open>a[:, lo:hi] = a[:, lo:hi] * row[None, :]\<close>\<close>

definition scale_cols ::
  "real array2 \<Rightarrow> int option \<Rightarrow> int option \<Rightarrow> real list \<Rightarrow> py_error + real array2" where
  "scale_cols a lo hi row =
     (let n = snd (shape2 a); s = slice_lo n lo; e = slice_hi n hi in
      if broadcastable row (e - s) then
        Inr (map (\<lambda>r. map (\<lambda>(j, x). if s \<le> j \<and> j < e then x * broadcast_nth row (j - s) else x)
                        (enumerate 0 r)) a)
      else Inl ValueError)"

definition ramp_rows ::
  "bool \<Rightarrow> real \<Rightarrow> real \<Rightarrow> int \<Rightarrow> int option \<Rightarrow> int option \<Rightarrow> real array2 \<Rightarrow> py_error + real array2" where
  "ramp_rows c start stop num lo hi weight_mat =
     (if c then
        (case linspace start stop num of
           Inl e \<Rightarrow> Inl e
         | Inr ramp \<Rightarrow> assign_rows weight_mat lo hi ramp)
      else Inr weight_mat)"

definition ramp_cols ::
  "bool \<Rightarrow> real \<Rightarrow> real \<Rightarrow> int \<Rightarrow> int option \<Rightarrow> int option \<Rightarrow> real array2 \<Rightarrow> py_error + real array2" where
  "ramp_cols c start stop num lo hi weight_mat =
     (if c then
        (case linspace start stop num of
           Inl e \<Rightarrow> Inl e
         | Inr ramp \<Rightarrow> scale_cols weight_mat lo hi ramp)
      else Inr weight_mat)"

definition weight_mat_for ::
  "int \<times> int \<Rightarrow> int \<times> int \<Rightarrow> nat \<times> nat \<Rightarrow> nat \<times> nat \<Rightarrow> py_error + real array2" where
  "weight_mat_for overlaps shapes max_grid grid =
     (case np_ones shapes of
        Inl e \<Rightarrow> Inl e
      | Inr weight_mat \<Rightarrow>
     (case ramp_rows (0 < fst grid) 0 1 (fst overlaps) None (Some (fst overlaps)) weight_mat of
        Inl e \<Rightarrow> Inl e
      | Inr weight_mat \<Rightarrow>
     (case ramp_rows (fst grid < fst max_grid) 1 0 (fst overlaps) (Some (- fst overlaps)) None weight_mat of
        Inl e \<Rightarrow> Inl e
      | Inr weight_mat \<Rightarrow>
     (case ramp_cols (0 < snd grid) 0 1 (snd overlaps) None (Some (snd overlaps)) weight_mat of
        Inl e \<Rightarrow> Inl e
      | Inr weight_mat \<Rightarrow>
        ramp_cols (snd grid < snd max_grid) 1 0 (snd overlaps) (Some (- snd overlaps)) None weight_mat))))"

text \<open>The results of a comprehension whose body can raise: the first exception wins.\<close>

fun collect :: "('e + 'a) list \<Rightarrow> 'e + 'a list" where
  "collect [] = Inr []"
| "collect (Inl e # xs) = Inl e"
| "collect (Inr x # xs) = (case collect xs of Inl e \<Rightarrow> Inl e | Inr ys \<Rightarrow> Inr (x # ys))"

text \<open>
  \<^verbatim>\<open>np.max(np.array([it[:2] for it in ...]), 0)\<close>: the largest grid index in each
  dimension (grid indices are natural numbers and the list of tiles is not empty).
\<close>

definition max_grid_of :: "'a tile list \<Rightarrow> nat \<times> nat" where
  "max_grid_of tiles =
     (fold max (map (\<lambda>(grid_1, grid_2, x, y, p). grid_1) tiles) 0,
      fold max (map (\<lambda>(grid_1, grid_2, x, y, p). grid_2) tiles) 0)"

definition create_weight_matrix_for_blending ::
  "'a array2 \<Rightarrow> int \<times> int \<Rightarrow> int \<times> int \<Rightarrow> py_error + real array2 list" where
  "create_weight_matrix_for_blending img overlaps strides =
     (let shapes = (fst strides + fst overlaps, snd strides + snd overlaps) in
      case sliding_window img overlaps strides of
        Inl e \<Rightarrow> Inl e
      | Inr tiles \<Rightarrow>
          collect (map (\<lambda>(grid_1, grid_2, x, y, p).
                     weight_mat_for overlaps shapes (max_grid_of tiles) (grid_1, grid_2)) tiles))"




section \<open>Batch orchestration\<close>

text \<open>
  The orchestrators \<^verbatim>\<open>motion_correct_batch_rigid\<close> and \<^verbatim>\<open>motion_correct_batch_pwrigid\<close>
  call \<^verbatim>\<open>motion_correction_piecewise\<close> once per iteration, which runs
  \<^verbatim>\<open>tile_and_correct_wrapper\<close> on every chunk of frame indices.  What a worker does to
  its frames is a collaborator (\<open>correct_chunk\<close>: load the frames, correct each against
  the template, return the shift information and the chunk's mean frame, or raise); so
  are the median over the chunk means, the high-pass filter, the random choice of
  chunks and the template estimated from a sample of the movie when none is passed.
  Effects are a log of events, in order: \<open>Corrected it idxs\<close> when the worker of
  iteration \<open>it\<close> has corrected the frames \<open>idxs\<close>, \<open>Persisted it idxs\<close> when it has
  written them to the output file.  Every function returns its outcome together with
  the events it caused, also when it raises.
\<close>

datatype event = Corrected nat "nat list" | Persisted nat "nat list"

record 'r collaborators =
  correct_chunk :: "fl array2 \<Rightarrow> nat list \<Rightarrow> py_error + 'r \<times> fl array2"
  nanmedian :: "fl array2 list \<Rightarrow> fl array2"
  high_pass :: "fl array2 \<Rightarrow> fl array2"
  random_chunks :: "nat \<Rightarrow> int \<Rightarrow> nat list"
  estimate_template :: "fl array2"

datatype splits = SplitCount int | SplitGroups "nat list list"

type_synonym 'r chunk_result = "'r \<times> nat list \<times> fl array2"

text \<open>
  \<^verbatim>\<open>
  def tile_and_correct_wrapper(params):
      ...
      for count, img in enumerate(imgs):
          mc[count], total_shift, start_step, xy_grid = tile_and_correct(img, template, ...)
          shift_info.append([total_shift, start_step, xy_grid])
      if out_fname is not None:
          outv = np.memmap(out_fname, mode='r+', ...)
          ...
          outv[:, idxs] = np.reshape(mc.astype(np.float32), (len(imgs), -1), order='F').T + bias
      new_temp = np.nanmean(mc, 0)
      new_temp[np.isnan(new_temp)] = np.nanmin(new_temp)
      return shift_info, idxs, new_temp
  \<close>
\<close>

definition tile_and_correct_wrapper ::
  "'r collaborators \<Rightarrow> nat \<Rightarrow> fl array2 \<Rightarrow> nat list \<Rightarrow> string option \<Rightarrow>
   (py_error + 'r chunk_result) \<times> event list" where
  "tile_and_correct_wrapper C it template idxs out_fname =
     (case correct_chunk C template idxs of
        Inl e \<Rightarrow> (Inl e, [])
      | Inr (shift_info, new_temp) \<Rightarrow>
          (Inr (shift_info, idxs, new_temp),
           Corrected it idxs # (if out_fname \<noteq> None then [Persisted it idxs] else [])))"

text \<open>\<^verbatim>\<open>list(map(tile_and_correct_wrapper, pars))\<close>: the first worker that raises ends the map.\<close>

fun run_chunks ::
  "'r collaborators \<Rightarrow> nat \<Rightarrow> fl array2 \<Rightarrow> string option \<Rightarrow> nat list list \<Rightarrow>
   (py_error + 'r chunk_result list) \<times> event list" where
  "run_chunks C it template out_fname [] = (Inr [], [])"
| "run_chunks C it template out_fname (idx # idxs) =
     (case tile_and_correct_wrapper C it template idx out_fname of
        (Inl e, evs) \<Rightarrow> (Inl e, evs)
      | (Inr r, evs) \<Rightarrow>
          (case run_chunks C it template out_fname idxs of
             (Inl e, evs') \<Rightarrow> (Inl e, evs @ evs')
           | (Inr rs, evs') \<Rightarrow> (Inr (r # rs), evs @ evs')))"

text \<open>
  \<^verbatim>\<open>np.array_split(list(range(T)), splits)\<close>: \<open>splits\<close> sections, the first
  \<open>T mod splits\<close> of them one longer; ValueError unless \<open>splits > 0\<close>.
\<close>

definition array_split :: "nat list \<Rightarrow> int \<Rightarrow> py_error + nat list list" where
  "array_split xs sections =
     (if sections \<le> 0 then Inl ValueError
      else let k = nat sections; q = length xs div k; r = length xs mod k
           in Inr (map (\<lambda>i. take (q + (if i < r then 1 else 0)) (drop (i * q + min i r) xs))
                     [0..<k]))"

text \<open>
  \<^verbatim>\<open>
  def motion_correction_piecewise(fname, splits, strides, overlaps, add_to_movie=0, template=None,
                                  ..., save_movie=True, base_name=None, subidx = None, num_splits=None, ...):
      ...
      if isinstance(splits, int):
          if subidx is None:
              rng = range(T)
          ...
          idxs = np.array_split(list(rng), splits)
      else:
          idxs = splits
          save_movie = False
      if template is None:
          raise Exception('motion_correction_piecewise(): Templateless not implemented')
      shape_mov = (np.prod(dims), T)
      if num_splits is not None:
          idxs = np.array(idxs)[np.random.randint(0, len(idxs), num_splits)]
          save_movie = False
      if save_movie:
          ...
          fname_tot = caiman.paths.memmap_frames_filename(base_name, dims, T, order)
          ...
          np.memmap(fname_tot, mode='w+', dtype=np.float32, shape=prepare_shape(shape_mov), order=order)
      else:
          fname_tot = None
      pars = []
      for idx in idxs:
          pars.append([fname, fname_tot, idx, shape_mov, template, ...])
      ...
          res = list(map(tile_and_correct_wrapper, pars))
      return fname_tot, res
  \<close>
  Both orchestrators call it with \<^verbatim>\<open>subidx = None\<close>.  \<open>T\<close> is the number of frames of the
  movie; the name of the output file is \<open>base_name\<close>.
\<close>

definition motion_correction_piecewise ::
  "'r collaborators \<Rightarrow> nat \<Rightarrow> nat \<Rightarrow> splits \<Rightarrow> fl array2 option \<Rightarrow> bool \<Rightarrow> string \<Rightarrow>
   int option \<Rightarrow> (py_error + string option \<times> 'r chunk_result list) \<times> event list" where
  "motion_correction_piecewise C it T splits template save_movie base_name num_splits =
     (case (case splits of
              SplitCount n \<Rightarrow>
                (case array_split [0..<T] n of Inl e \<Rightarrow> Inl e | Inr idxs \<Rightarrow> Inr (idxs, save_movie))
            | SplitGroups groups \<Rightarrow> Inr (groups, False)) of
        Inl e \<Rightarrow> (Inl e, [])
      | Inr (idxs, save_movie) \<Rightarrow>
        (case template of
           None \<Rightarrow> (Inl PlainException, [])
         | Some template \<Rightarrow>
           let (idxs, save_movie) =
                 (case num_splits of
                    None \<Rightarrow> (idxs, save_movie)
                  | Some n \<Rightarrow> (map (\<lambda>i. idxs ! i) (random_chunks C (length idxs) n), False));
               fname_tot = (if save_movie then Some base_name else None)
           in (case run_chunks C it template fname_tot idxs of
                 (Inl e, evs) \<Rightarrow> (Inl e, evs)
               | (Inr res, evs) \<Rightarrow> (Inr (fname_tot, res), evs))))"

text \<open>\<^verbatim>\<open>np.min\<close> over all entries (NaN if any entry is NaN), and the negation of a float.\<close>

definition np_min :: "fl array2 \<Rightarrow> py_error + fl" where
  "np_min a = (case concat a of [] \<Rightarrow> Inl ValueError | y # ys \<Rightarrow> Inr (foldl np_minimum y ys))"

fun fl_neg :: "fl \<Rightarrow> fl" where
  "fl_neg (Fin r) = Fin (- r)"
| "fl_neg PInf = NInf"
| "fl_neg NInf = PInf"
| "fl_neg NaN = NaN"

text \<open>
  \<^verbatim>\<open>
  def motion_correct_batch_rigid(fname, max_shifts, dview=None, splits=56, num_splits_to_process=None, num_iter=1,
                                 template=None, shifts_opencv=False, save_movie_rigid=False, add_to_movie=None, ...):
      ...
      if template is None:
          ...
              template = caiman.motion_correction.bin_median(
                      m.motion_correct(max_shifts[1], max_shifts[0], template=None)[0])
      new_templ = template
      if add_to_movie is None:
          add_to_movie = -np.min(template)
      if np.isnan(add_to_movie):
          logging.error('The movie contains NaNs. NaNs are not allowed!')
          raise Exception('The movie contains NaNs. NaNs are not allowed!')
      ...
      save_movie = False
      fname_tot_rig = None
      res_rig:List = []
      for iter_ in range(num_iter):
          old_templ = new_templ.copy()
          if iter_ == num_iter - 1:
              save_movie = save_movie_rigid
          ...
          fname_tot_rig, res_rig = motion_correction_piecewise(fname, splits, strides=None, overlaps=None,
                                     add_to_movie=add_to_movie, template=old_templ, ..., max_deviation_rigid=0,
                                     dview=dview, save_movie=save_movie, base_name=base_name,
                                     num_splits=num_splits_to_process, ...)
          ...
              new_templ = np.nanmedian(np.dstack([r[-1] for r in res_rig]), -1)
          if gSig_filt is not None:
              new_templ = high_pass_filter_space(new_templ, gSig_filt)
      total_template = new_templ
      ...
      return fname_tot_rig, total_template, templates, shifts
  \<close>
  The loop is \<open>rigid_loop\<close>, over the iteration numbers still to run, with the loop
  variables \<^verbatim>\<open>new_templ\<close>, \<^verbatim>\<open>save_movie\<close>, \<^verbatim>\<open>fname_tot_rig\<close> and \<^verbatim>\<open>res_rig\<close> as state.
  The result is the file name, the final template and the last iteration's chunk
  results (from which the source lists the chunk templates and the shifts).
\<close>

type_synonym 'r loop_state = "fl array2 \<times> bool \<times> string option \<times> 'r chunk_result list"

fun rigid_loop ::
  "'r collaborators \<Rightarrow> nat \<Rightarrow> splits \<Rightarrow> int option \<Rightarrow> int \<Rightarrow> bool \<Rightarrow> bool \<Rightarrow> string \<Rightarrow>
   nat list \<Rightarrow> 'r loop_state \<Rightarrow> (py_error + 'r loop_state) \<times> event list" where
  "rigid_loop C T splits num_splits num_iter save_movie_rigid filtered base_name [] st = (Inr st, [])"
| "rigid_loop C T splits num_splits num_iter save_movie_rigid filtered base_name (iter # iters)
       (new_templ, save_movie, fname_tot_rig, res_rig) =
     (let old_templ = new_templ;
          save_movie = (if int iter = num_iter - 1 then save_movie_rigid else save_movie)
      in case motion_correction_piecewise C iter T splits (Some old_templ) save_movie base_name num_splits of
           (Inl e, evs) \<Rightarrow> (Inl e, evs)
         | (Inr (fname_tot_rig, res_rig), evs) \<Rightarrow>
             let new_templ = nanmedian C (map (\<lambda>(shift_info, idxs, tmpl). tmpl) res_rig);
                 new_templ = (if filtered then high_pass C new_templ else new_templ)
             in (case rigid_loop C T splits num_splits num_iter save_movie_rigid filtered base_name iters
                        (new_templ, save_movie, fname_tot_rig, res_rig) of
                   (r, evs') \<Rightarrow> (r, evs @ evs')))"

definition motion_correct_batch_rigid ::
  "'r collaborators \<Rightarrow> nat \<Rightarrow> splits \<Rightarrow> int option \<Rightarrow> int \<Rightarrow> fl array2 option \<Rightarrow> bool \<Rightarrow>
   fl option \<Rightarrow> bool \<Rightarrow> string \<Rightarrow>
   (py_error + string option \<times> fl array2 \<times> 'r chunk_result list) \<times> event list" where
  "motion_correct_batch_rigid C T splits num_splits_to_process num_iter template save_movie_rigid
       add_to_movie filtered base_name =
     (let template = (case template of None \<Rightarrow> estimate_template C | Some t \<Rightarrow> t);
          new_templ = template
      in case (case add_to_movie of
                 None \<Rightarrow> (case np_min template of Inl e \<Rightarrow> Inl e | Inr m \<Rightarrow> Inr (fl_neg m))
               | Some a \<Rightarrow> Inr a) of
           Inl e \<Rightarrow> (Inl e, [])
         | Inr add_to_movie \<Rightarrow>
             if isnan add_to_movie then (Inl PlainException, [])
             else
               (case rigid_loop C T splits num_splits_to_process num_iter save_movie_rigid filtered
                       base_name [0..<nat num_iter] (new_templ, False, None, []) of
                  (Inl e, evs) \<Rightarrow> (Inl e, evs)
                | (Inr (new_templ, save_movie, fname_tot_rig, res_rig), evs) \<Rightarrow>
                    (Inr (fname_tot_rig, new_templ, res_rig), evs)))"

text \<open>
  \<^verbatim>\<open>
  def motion_correct_batch_pwrigid(fname, max_shifts, strides, overlaps, add_to_movie, ...,
                                   splits=56, num_splits_to_process=None, num_iter=1,
                                   template=None, shifts_opencv=False, save_movie=False, ...):
      if template is None:
          raise Exception('You need to initialize the template with a good estimate. See the motion'
                          '_correct_batch_rigid function')
      else:
          new_templ = template
      if np.isnan(add_to_movie):
          logging.error('The template contains NaNs. NaNs are not allowed!')
          raise Exception('The template contains NaNs. NaNs are not allowed!')
      ...
      for iter_ in range(num_iter):
          old_templ = new_templ.copy()
          if iter_ == num_iter - 1:
              save_movie = save_movie
              ...
          fname_tot_els, res_el = motion_correction_piecewise(fname, splits, strides, overlaps,
                                     add_to_movie=add_to_movie, template=old_templ, ...,
                                     dview=dview, save_movie=save_movie, base_name=base_name,
                                     num_splits=num_splits_to_process, ...)
          ...
              new_templ = np.nanmedian(np.dstack([r[-1] for r in res_el]), -1)
          if gSig_filt is not None:
              new_templ = high_pass_filter_space(new_templ, gSig_filt)
      total_template = new_templ
      ...
      for rr in res_el:
          ...
      return fname_tot_els, total_template, templates, x_shifts, y_shifts, z_shifts, coord_shifts
  \<close>
  \<^verbatim>\<open>res_el\<close> is unbound when the loop has not run, so that reading it after the loop
  raises UnboundLocalError.
\<close>

type_synonym 'r pw_state = "fl array2 \<times> bool \<times> (string option \<times> 'r chunk_result list) option"

fun pwrigid_loop ::
  "'r collaborators \<Rightarrow> nat \<Rightarrow> splits \<Rightarrow> int option \<Rightarrow> int \<Rightarrow> bool \<Rightarrow> string \<Rightarrow>
   nat list \<Rightarrow> 'r pw_state \<Rightarrow> (py_error + 'r pw_state) \<times> event list" where
  "pwrigid_loop C T splits num_splits num_iter filtered base_name [] st = (Inr st, [])"
| "pwrigid_loop C T splits num_splits num_iter filtered base_name (iter # iters)
       (new_templ, save_movie, res_el_prev) =
     (let old_templ = new_templ;
          save_movie = (if int iter = num_iter - 1 then save_movie else save_movie)
      in case motion_correction_piecewise C iter T splits (Some old_templ) save_movie base_name num_splits of
           (Inl e, evs) \<Rightarrow> (Inl e, evs)
         | (Inr (fname_tot_els, res_el), evs) \<Rightarrow>
             let new_templ = nanmedian C (map (\<lambda>(shift_info, idxs, tmpl). tmpl) res_el);
                 new_templ = (if filtered then high_pass C new_templ else new_templ)
             in (case pwrigid_loop C T splits num_splits num_iter filtered base_name iters
                        (new_templ, save_movie, Some (fname_tot_els, res_el)) of
                   (r, evs') \<Rightarrow> (r, evs @ evs')))"

definition motion_correct_batch_pwrigid ::
  "'r collaborators \<Rightarrow> nat \<Rightarrow> splits \<Rightarrow> int option \<Rightarrow> int \<Rightarrow> fl array2 option \<Rightarrow> bool \<Rightarrow>
   fl \<Rightarrow> bool \<Rightarrow> string \<Rightarrow>
   (py_error + string option \<times> fl array2 \<times> 'r chunk_result list) \<times> event list" where
  "motion_correct_batch_pwrigid C T splits num_splits_to_process num_iter template save_movie
       add_to_movie filtered base_name =
     (case template of
        None \<Rightarrow> (Inl PlainException, [])
      | Some new_templ \<Rightarrow>
          if isnan add_to_movie then (Inl PlainException, [])
          else
            (case pwrigid_loop C T splits num_splits_to_process num_iter filtered base_name
                    [0..<nat num_iter] (new_templ, save_movie, None) of
               (Inl e, evs) \<Rightarrow> (Inl e, evs)
             | (Inr (new_templ, save_movie, None), evs) \<Rightarrow> (Inl UnboundLocalError, evs)
             | (Inr (new_templ, save_movie, Some (fname_tot_els, res_el)), evs) \<Rightarrow>
                 (Inr (fname_tot_els, new_templ, res_el), evs)))"

text \<open>
  Collaborators on which the orchestrators can be run: a worker returns the template
  as its chunk mean, the median of the chunk means is the first of them.
\<close>

definition echo_collaborators :: "unit collaborators" where
  "echo_collaborators =
     \<lparr> correct_chunk = (\<lambda>template idxs. Inr ((), template)),
       nanmedian = (\<lambda>ts. case ts of [] \<Rightarrow> [] | t # _ \<Rightarrow> t),
       high_pass = (\<lambda>t. t),
       random_chunks = (\<lambda>n k. replicate (nat k) 0),
       estimate_template = [[Fin 0]] \<rparr>"

section \<open>Arithmetic on floats and NaN-aware sums\<close>

text \<open>
  numpy's arithmetic on floats with the IEEE rules for NaN and the infinities (there is
  no negative zero in the model: a finite value divided by zero is an infinity with the
  sign of the dividend).  \<open>nansum2 a b\<close> is \<^verbatim>\<open>np.nansum\<close> of two values, a NaN counting
  as zero.
\<close>

fun fl_add :: "fl \<Rightarrow> fl \<Rightarrow> fl" where
  "fl_add NaN y = NaN"
| "fl_add x NaN = NaN"
| "fl_add PInf NInf = NaN"
| "fl_add NInf PInf = NaN"
| "fl_add PInf y = PInf"
| "fl_add x PInf = PInf"
| "fl_add NInf y = NInf"
| "fl_add x NInf = NInf"
| "fl_add (Fin a) (Fin b) = Fin (a + b)"

definition fl_sub :: "fl \<Rightarrow> fl \<Rightarrow> fl" where
  "fl_sub x y = fl_add x (fl_neg y)"

fun fl_mul :: "fl \<Rightarrow> fl \<Rightarrow> fl" where
  "fl_mul NaN y = NaN"
| "fl_mul x NaN = NaN"
| "fl_mul (Fin a) (Fin b) = Fin (a * b)"
| "fl_mul (Fin a) PInf = (if a = 0 then NaN else if 0 < a then PInf else NInf)"
| "fl_mul (Fin a) NInf = (if a = 0 then NaN else if 0 < a then NInf else PInf)"
| "fl_mul PInf (Fin b) = (if b = 0 then NaN else if 0 < b then PInf else NInf)"
| "fl_mul NInf (Fin b) = (if b = 0 then NaN else if 0 < b then NInf else PInf)"
| "fl_mul PInf PInf = PInf"
| "fl_mul NInf NInf = PInf"
| "fl_mul PInf NInf = NInf"
| "fl_mul NInf PInf = NInf"

fun fl_div :: "fl \<Rightarrow> fl \<Rightarrow> fl" where
  "fl_div NaN y = NaN"
| "fl_div x NaN = NaN"
| "fl_div (Fin a) (Fin b) =
     (if b = 0 then (if a = 0 then NaN else if 0 < a then PInf else NInf) else Fin (a / b))"
| "fl_div (Fin a) PInf = Fin 0"
| "fl_div (Fin a) NInf = Fin 0"
| "fl_div PInf (Fin b) = (if 0 \<le> b then PInf else NInf)"
| "fl_div NInf (Fin b) = (if 0 \<le> b then NInf else PInf)"
| "fl_div PInf y = NaN"
| "fl_div NInf y = NaN"

definition nan_to_zero :: "fl \<Rightarrow> fl" where
  "nan_to_zero x = (if isnan x then Fin 0 else x)"

definition nansum2 :: "fl \<Rightarrow> fl \<Rightarrow> fl" where
  "nansum2 a b = fl_add (nan_to_zero a) (nan_to_zero b)"

section \<open>Stitching the corrected patches\<close>

text \<open>
  Elementwise operations on 2D arrays, ValueError when the shapes differ (numpy would
  broadcast only a dimension of length 1, which the patches here do not have), and the
  assignment \<^verbatim>\<open>a[x:x', y:y'] = v\<close> of an array \<open>v\<close> of the shape of the slice.
\<close>

definition same_shape :: "'a array2 \<Rightarrow> 'b array2 \<Rightarrow> bool" where
  "same_shape a b = (map length a = map length b)"

definition zip_with2 :: "('a \<Rightarrow> 'b \<Rightarrow> 'c) \<Rightarrow> 'a array2 \<Rightarrow> 'b array2 \<Rightarrow> py_error + 'c array2" where
  "zip_with2 f a b = (if same_shape a b then Inr (map2 (map2 f) a b) else Inl ValueError)"

definition set_slice2 ::
  "'a array2 \<Rightarrow> int \<Rightarrow> int \<Rightarrow> int \<Rightarrow> int \<Rightarrow> 'a array2 \<Rightarrow> py_error + 'a array2" where
  "set_slice2 a x x' y y' v =
     (if same_shape (slice2 a x x' y y') v then
        Inr (map (\<lambda>(i, r).
               if in_slice (length a) (Some x) (Some x') i then
                 map (\<lambda>(j, c).
                        if in_slice (length r) (Some y) (Some y') j
                        then v ! (i - slice_lo (length a) (Some x)) ! (j - slice_lo (length r) (Some y))
                        else c) (enumerate 0 r)
               else r) (enumerate 0 a))
      else Inl ValueError)"

text \<open>
  One pass of the blending loop:
  \<^verbatim>\<open>
  prev_val_1 = normalizer[x:x + newshapes[0], y:y + newshapes[1]]
  normalizer[x:x + newshapes[0], y:y + newshapes[1]] = np.nansum(
      np.dstack([~np.isnan(im) * 1 * weight_mat, prev_val_1]), -1)
  prev_val = new_img[x:x + newshapes[0], y:y + newshapes[1]]
  new_img[x:x + newshapes[0], y:y + newshapes[1]] = np.nansum(np.dstack([im * weight_mat, prev_val]), -1)
  \<close>
\<close>

definition valid_weight :: "fl \<Rightarrow> real \<Rightarrow> fl" where
  "valid_weight p w = Fin ((if isnan p then 0 else 1) * 1 * w)"

definition weighted :: "fl \<Rightarrow> real \<Rightarrow> fl" where
  "weighted p w = fl_mul p (Fin w)"

definition accumulate ::
  "(fl \<Rightarrow> real \<Rightarrow> fl) \<Rightarrow> fl array2 \<Rightarrow> int \<times> int \<Rightarrow> int \<times> int \<Rightarrow> fl array2 \<Rightarrow> real array2 \<Rightarrow>
   py_error + fl array2" where
  "accumulate term canvas origin newshapes im weight_mat =
     (let x = fst origin; y = snd origin;
          prev_val = slice2 canvas x (x + fst newshapes) y (y + snd newshapes)
      in case zip_with2 term im weight_mat of
           Inl e \<Rightarrow> Inl e
         | Inr contribution \<Rightarrow>
           (case zip_with2 nansum2 contribution prev_val of
              Inl e \<Rightarrow> Inl e
            | Inr summed \<Rightarrow>
                set_slice2 canvas x (x + fst newshapes) y (y + snd newshapes) summed))"

type_synonym patch_item = "(int \<times> int) \<times> (nat \<times> nat) \<times> fl array2 \<times> real array2"

fun blend_loop ::
  "int \<times> int \<Rightarrow> patch_item list \<Rightarrow> fl array2 \<times> fl array2 \<Rightarrow> py_error + fl array2 \<times> fl array2" where
  "blend_loop newshapes [] (normalizer, new_img) = Inr (normalizer, new_img)"
| "blend_loop newshapes ((origin, grid, im, weight_mat) # items) (normalizer, new_img) =
     (case accumulate valid_weight normalizer origin newshapes im weight_mat of
        Inl e \<Rightarrow> Inl e
      | Inr normalizer \<Rightarrow>
        (case accumulate weighted new_img origin newshapes im weight_mat of
           Inl e \<Rightarrow> Inl e
         | Inr new_img \<Rightarrow> blend_loop newshapes items (normalizer, new_img)))"

text \<open>
  One pass of the loop without blending:
  \<^verbatim>\<open>
  if idx_0 == 0:
      x_start = x
  else:
      x_start = x + half_overlap_x
  if idx_1 == 0:
      y_start = y
  else:
      y_start = y + half_overlap_y
  x_end = x + newshapes[0]
  y_end = y + newshapes[1]
  new_img[x_start:x_end, y_start:y_end] = im[x_start - x:, y_start - y:]
  \<close>
  \<open>drop_slice2 im a b\<close> is \<^verbatim>\<open>im[a:, b:]\<close>.
\<close>

definition drop_slice2 :: "'a array2 \<Rightarrow> int \<Rightarrow> int \<Rightarrow> 'a array2" where
  "drop_slice2 im a b =
     map (\<lambda>r. drop (slice_idx (length r) b) r) (drop (slice_idx (length im) a) im)"

fun hard_loop ::
  "int \<times> int \<Rightarrow> int \<times> int \<Rightarrow> patch_item list \<Rightarrow> fl array2 \<Rightarrow> py_error + fl array2" where
  "hard_loop newshapes half_overlap [] new_img = Inr new_img"
| "hard_loop newshapes half_overlap ((origin, grid, im, weight_mat) # items) new_img =
     (let x = fst origin; y = snd origin;
          x_start = (if fst grid = 0 then x else x + fst half_overlap);
          y_start = (if snd grid = 0 then y else y + snd half_overlap);
          x_end = x + fst newshapes;
          y_end = y + snd newshapes
      in case set_slice2 new_img x_start x_end y_start y_end (drop_slice2 im (x_start - x) (y_start - y)) of
           Inl e \<Rightarrow> Inl e
         | Inr new_img \<Rightarrow> hard_loop newshapes half_overlap items new_img)"

text \<open>
  \<^verbatim>\<open>int(newoverlaps[0] / 2)\<close>: true division, then truncation towards zero.
\<close>

definition half_of :: "int \<Rightarrow> int" where
  "half_of ov = (if 0 \<le> ov then ov div 2 else - ((- ov) div 2))"

text \<open>
  \<^verbatim>\<open>
  normalizer = np.zeros_like(img) * np.nan
  new_img = np.zeros_like(img) * np.nan
  ...
  if max_shear < 0.5:
      for (x, y), (_, _), im, (_, _), weight_mat in zip(start_step, xy_grid, imgs, total_shifts, weight_matrix):
          ...
      new_img = new_img / normalizer
  else:
      half_overlap_x = int(newoverlaps[0] / 2)
      half_overlap_y = int(newoverlaps[1] / 2)
      for (x, y), (idx_0, idx_1), im, (_, _), weight_mat in zip(start_step, xy_grid, imgs, total_shifts, weight_matrix):
          ...
  \<close>
\<close>

definition nan_like :: "'a array2 \<Rightarrow> fl array2" where
  "nan_like img = map (map (\<lambda>_. NaN)) img"

definition stitch ::
  "real \<Rightarrow> fl array2 \<Rightarrow> int \<times> int \<Rightarrow> int \<times> int \<Rightarrow> patch_item list \<Rightarrow> py_error + fl array2" where
  "stitch max_shear img newshapes newoverlaps items =
     (if max_shear < 1 / 2 then
        (case blend_loop newshapes items (nan_like img, nan_like img) of
           Inl e \<Rightarrow> Inl e
         | Inr (normalizer, new_img) \<Rightarrow> zip_with2 fl_div new_img normalizer)
      else
        hard_loop newshapes (half_of (fst newoverlaps), half_of (snd newoverlaps)) items
          (nan_like img))"

section \<open>Piecewise-rigid correction engine: tile\_and\_correct\<close>

text \<open>
  What \<^verbatim>\<open>tile_and_correct\<close> asks of OpenCV, of the FFT and of the functions of this file
  that are floating-point numerics throughout:
  \<^item> \<open>numerics\<close>: the numerics of \<open>register_translation\<close>, on images;
  \<^item> \<open>high_pass_filter_space img gSig_filt\<close>;
  \<^item> \<open>warp_affine\<close>: the interpolation \<^verbatim>\<open>cv2.warpAffine\<close> inside \<open>apply_shift_iteration\<close>;
  \<^item> \<open>apply_shifts_dft a shifts diffphase is_freq border_nan\<close>: the shift applicator in the
    frequency domain, on a transformed frame (\<open>is_freq\<close>) or on a patch;
  \<^item> \<open>remap img shift_img_x shift_img_y\<close>: \<^verbatim>\<open>cv2.remap\<close> of the frame along the two shift
    fields resized to the frame by \<^verbatim>\<open>cv2.resize\<close>;
  \<^item> \<open>resize field (h, w)\<close>: \<^verbatim>\<open>cv2.resize(field, (w, h), interpolation=cv2.INTER_CUBIC)\<close>,
    an array of shape \<open>(h, w)\<close>;
  \<^item> \<open>cast_nonfinite\<close>: what \<^verbatim>\<open>.astype(int)\<close> makes of a quotient by zero.
  The model covers \<^verbatim>\<open>show_movie = False\<close>.
\<close>

record backend =
  numerics :: "fl array2 numerics"
  high_pass_filter_space :: "fl array2 \<Rightarrow> int \<times> int \<Rightarrow> fl array2"
  warp_affine :: "fl array2 \<Rightarrow> real \<times> real \<Rightarrow> fl array2"
  apply_shifts_dft :: "fl array2 \<Rightarrow> real \<times> real \<Rightarrow> real \<Rightarrow> bool \<Rightarrow> border_mode \<Rightarrow> fl array2"
  remap :: "fl array2 \<Rightarrow> real array2 \<Rightarrow> real array2 \<Rightarrow> fl array2"
  resize :: "real array2 \<Rightarrow> nat \<times> nat \<Rightarrow> real array2"
  cast_nonfinite :: "int"

datatype shift_report = RigidShift "real \<times> real" | PatchShifts "(real \<times> real) list"

type_synonym correction =
  "fl array2 \<times> shift_report \<times> (int \<times> int) list option \<times> (nat \<times> nat) list option"

definition add_scalar :: "fl array2 \<Rightarrow> fl \<Rightarrow> fl array2" where
  "add_scalar a c = map (map (\<lambda>p. fl_add p c)) a"

definition sub_scalar :: "fl array2 \<Rightarrow> fl \<Rightarrow> fl array2" where
  "sub_scalar a c = map (map (\<lambda>p. fl_sub p c)) a"

text \<open>The first two components of a shift vector (IndexError if there are fewer).\<close>

definition pair_of :: "real list \<Rightarrow> py_error + real \<times> real" where
  "pair_of s = (if length s < 2 then Inl IndexError else Inr (s ! 0, s ! 1))"

definition negated :: "real \<times> real \<Rightarrow> real \<times> real" where
  "negated s = (- fst s, - snd s)"

text \<open>
  The branch \<^verbatim>\<open>max_deviation_rigid == 0\<close>:
  \<^verbatim>\<open>
  if shifts_opencv:
      if gSig_filt is not None:
          img = img_orig
      new_img = apply_shift_iteration(img, (-rigid_shts[0], -rigid_shts[1]), border_nan=border_nan)
  else:
      if gSig_filt is not None:
          raise Exception('The use of FFT and filtering options have not been tested. Set opencv=True')
      new_img = apply_shifts_dft(sfr_freq, (-rigid_shts[0], -rigid_shts[1]), diffphase, border_nan=border_nan)
  return new_img - add_to_movie, (-rigid_shts[0], -rigid_shts[1]), None, None
  \<close>
\<close>

definition rigid_branch ::
  "backend \<Rightarrow> fl array2 \<Rightarrow> fl array2 \<Rightarrow> fl array2 \<Rightarrow> real \<Rightarrow> real list \<Rightarrow> fl \<Rightarrow> bool \<Rightarrow>
   (int \<times> int) option \<Rightarrow> border_mode \<Rightarrow> py_error + correction" where
  "rigid_branch B img img_orig sfr_freq diffphase rigid_shts add_to_movie shifts_opencv gSig_filt border_nan =
     (if shifts_opencv then
        (case pair_of rigid_shts of
           Inl e \<Rightarrow> Inl e
         | Inr rigid \<Rightarrow>
           (case apply_shift_iteration (warp_affine B) (if gSig_filt \<noteq> None then img_orig else img)
                   (negated rigid) border_nan of
              Inl e \<Rightarrow> Inl e
            | Inr new_img \<Rightarrow>
                Inr (sub_scalar new_img add_to_movie, RigidShift (negated rigid), None, None)))
      else if gSig_filt \<noteq> None then Inl PlainException
      else
        (case pair_of rigid_shts of
           Inl e \<Rightarrow> Inl e
         | Inr rigid \<Rightarrow>
             Inr (sub_scalar (apply_shifts_dft B sfr_freq (negated rigid) diffphase True border_nan)
                    add_to_movie,
                  RigidShift (negated rigid), None, None)))"

text \<open>
  The shifts of the patches:
  \<^verbatim>\<open>
  templates = [it[-1] for it in sliding_window(template, overlaps=overlaps, strides=strides)]
  xy_grid = [(it[0], it[1]) for it in sliding_window(template, overlaps=overlaps, strides=strides)]
  num_tiles = np.prod(np.add(xy_grid[-1], 1))
  imgs = [it[-1] for it in sliding_window(img, overlaps=overlaps, strides=strides)]
  dim_grid = tuple(np.add(xy_grid[-1], 1))
  if max_deviation_rigid is not None:
      lb_shifts = np.ceil(np.subtract(rigid_shts, max_deviation_rigid)).astype(int)
      ub_shifts = np.floor(np.add(rigid_shts, max_deviation_rigid)).astype(int)
  else:
      lb_shifts = None
      ub_shifts = None
  shfts_et_all = [register_translation(
      a, b, c, shifts_lb=lb_shifts, shifts_ub=ub_shifts, max_shifts=max_shifts, use_cuda=use_cuda) for a, b, c in zip(
      imgs, templates, [upsample_factor_fft] * num_tiles)]
  shfts = [sshh[0] for sshh in shfts_et_all]
  diffs_phase = [sshh[2] for sshh in shfts_et_all]
  shift_img_x = np.reshape(np.array(shfts)[:, 0], dim_grid)
  shift_img_y = np.reshape(np.array(shfts)[:, 1], dim_grid)
  diffs_phase_grid = np.reshape(np.array(diffs_phase), dim_grid)
  \<close>
  \<open>measure_patches\<close> is the list of the registrations, \<open>patch_fields\<close> the three fields
  with their grid shape.
\<close>

definition grid_dims :: "'a tile list \<Rightarrow> nat \<times> nat" where
  "grid_dims tiles = (case last tiles of (g1, g2, x, y, p) \<Rightarrow> (g1 + 1, g2 + 1))"

definition reshape2 :: "'a list \<Rightarrow> nat \<times> nat \<Rightarrow> py_error + 'a array2" where
  "reshape2 xs shape =
     (if length xs = fst shape * snd shape
      then Inr (map (\<lambda>i. take (snd shape) (drop (i * snd shape) xs)) [0..<fst shape])
      else Inl ValueError)"

definition shift_bounds ::
  "real option \<Rightarrow> real list \<Rightarrow> py_error + (int \<times> int) option \<times> (int \<times> int) option" where
  "shift_bounds max_deviation_rigid rigid_shts =
     (case max_deviation_rigid of
        None \<Rightarrow> Inr (None, None)
      | Some d \<Rightarrow>
        (case pair_of rigid_shts of
           Inl e \<Rightarrow> Inl e
         | Inr (r0, r1) \<Rightarrow> Inr (Some (\<lceil>r0 - d\<rceil>, \<lceil>r1 - d\<rceil>), Some (\<lfloor>r0 + d\<rfloor>, \<lfloor>r1 + d\<rfloor>))))"

definition patches_of :: "'a tile list \<Rightarrow> 'a array2 list" where
  "patches_of tiles = map (\<lambda>(g1, g2, x, y, p). p) tiles"

definition grid_of :: "'a tile list \<Rightarrow> (nat \<times> nat) list" where
  "grid_of tiles = map (\<lambda>(g1, g2, x, y, p). (g1, g2)) tiles"

definition origins_of :: "'a tile list \<Rightarrow> (int \<times> int) list" where
  "origins_of tiles = map (\<lambda>(g1, g2, x, y, p). (x, y)) tiles"

definition measure_patches ::
  "backend \<Rightarrow> fl array2 \<Rightarrow> fl array2 \<Rightarrow> int \<times> int \<Rightarrow> int \<times> int \<Rightarrow> int \<times> int \<Rightarrow> int \<Rightarrow>
   real option \<Rightarrow> real list \<Rightarrow>
   py_error + (nat \<times> nat) \<times> (real list \<times> fl array2 \<times> real) list" where
  "measure_patches B img template strides overlaps max_shifts upsample_factor_fft
       max_deviation_rigid rigid_shts =
     (case sliding_window template overlaps strides of
        Inl e \<Rightarrow> Inl e
      | Inr template_tiles \<Rightarrow>
        let templates = patches_of template_tiles;
            dim_grid = grid_dims template_tiles;
            num_tiles = fst dim_grid * snd dim_grid
        in (case sliding_window img overlaps strides of
              Inl e \<Rightarrow> Inl e
            | Inr img_tiles \<Rightarrow>
              (case shift_bounds max_deviation_rigid rigid_shts of
                 Inl e \<Rightarrow> Inl e
               | Inr (lb_shifts, ub_shifts) \<Rightarrow>
                 (case collect (map (\<lambda>(a, b, c).
                           register_translation (numerics B) a b c ''real'' lb_shifts ub_shifts max_shifts)
                         (zip (patches_of img_tiles)
                            (zip templates (replicate num_tiles upsample_factor_fft)))) of
                    Inl e \<Rightarrow> Inl e
                  | Inr shfts_et_all \<Rightarrow> Inr (dim_grid, shfts_et_all)))))"

definition patch_fields ::
  "(nat \<times> nat) \<Rightarrow> (real list \<times> fl array2 \<times> real) list \<Rightarrow>
   py_error + real array2 \<times> real array2 \<times> real array2" where
  "patch_fields dim_grid shfts_et_all =
     (case collect (map (\<lambda>(shifts, src_freq, phasediff). pair_of shifts) shfts_et_all) of
        Inl e \<Rightarrow> Inl e
      | Inr shfts \<Rightarrow>
        (case reshape2 (map fst shfts) dim_grid of
           Inl e \<Rightarrow> Inl e
         | Inr shift_img_x \<Rightarrow>
           (case reshape2 (map snd shfts) dim_grid of
              Inl e \<Rightarrow> Inl e
            | Inr shift_img_y \<Rightarrow>
              (case reshape2 (map (\<lambda>(shifts, src_freq, phasediff). phasediff) shfts_et_all) dim_grid of
                 Inl e \<Rightarrow> Inl e
               | Inr diffs_phase_grid \<Rightarrow> Inr (shift_img_x, shift_img_y, diffs_phase_grid)))))"

text \<open>
  \<^verbatim>\<open>[(-x, -y) for x, y in zip(shift_img_x.reshape(num_tiles), shift_img_y.reshape(num_tiles))]\<close>;
  \<^verbatim>\<open>reshape\<close> raises ValueError unless the field has \<open>num_tiles\<close> entries.
\<close>

definition flatten_to :: "'a array2 \<Rightarrow> nat \<Rightarrow> py_error + 'a list" where
  "flatten_to field num_tiles =
     (if length (concat field) = num_tiles then Inr (concat field) else Inl ValueError)"

definition negated_shifts ::
  "real array2 \<Rightarrow> real array2 \<Rightarrow> nat \<Rightarrow> py_error + (real \<times> real) list" where
  "negated_shifts shift_img_x shift_img_y num_tiles =
     (case flatten_to shift_img_x num_tiles of
        Inl e \<Rightarrow> Inl e
      | Inr xs \<Rightarrow>
        (case flatten_to shift_img_y num_tiles of
           Inl e \<Rightarrow> Inl e
         | Inr ys \<Rightarrow> Inr (map negated (zip xs ys))))"

text \<open>
  \<^verbatim>\<open>
  max_shear = np.percentile(
      [np.max(np.abs(np.diff(ssshh, axis=xxsss))) for ssshh, xxsss in itertools.product(
          [shift_img_x, shift_img_y], [0, 1])], 75)
  \<close>
  \<^verbatim>\<open>np.max\<close> of an array without entries raises ValueError.  The percentile of four
  numbers interpolates linearly between the sorted values at positions 2 and 3.
\<close>

definition np_diff :: "real array2 \<Rightarrow> nat \<Rightarrow> real array2" where
  "np_diff field axis =
     (if axis = 0 then map2 (map2 (\<lambda>a b. b - a)) (butlast field) (tl field)
      else map (\<lambda>r. map2 (\<lambda>a b. b - a) (butlast r) (tl r)) field)"

definition max_abs :: "real array2 \<Rightarrow> py_error + real" where
  "max_abs a = (case concat a of [] \<Rightarrow> Inl ValueError | v # vs \<Rightarrow> Inr (fold max (map abs vs) \<bar>v\<bar>))"

definition percentile :: "real list \<Rightarrow> real \<Rightarrow> real" where
  "percentile xs q =
     (let s = sort xs; pos = q / 100 * real (length xs - 1);
          lo = nat \<lfloor>pos\<rfloor>; hi = min (lo + 1) (length xs - 1)
      in s ! lo + (pos - real lo) * (s ! hi - s ! lo))"

definition max_shear_of :: "real array2 \<Rightarrow> real array2 \<Rightarrow> py_error + real" where
  "max_shear_of shift_img_x shift_img_y =
     (case collect [max_abs (np_diff shift_img_x 0), max_abs (np_diff shift_img_x 1),
                    max_abs (np_diff shift_img_y 0), max_abs (np_diff shift_img_y 1)] of
        Inl e \<Rightarrow> Inl e
      | Inr maxima \<Rightarrow> Inr (percentile maxima 75))"

text \<open>
  \<^verbatim>\<open>np.round\<close> rounds a half to the even neighbour.
  \<^verbatim>\<open>
  if newoverlaps is None:
      newoverlaps = overlaps
  if newstrides is None:
      newstrides = tuple(np.round(np.divide(strides, upsample_factor_grid)).astype(int))
  \<close>
\<close>

definition round_half_even :: "real \<Rightarrow> int" where
  "round_half_even x =
     (let f = \<lfloor>x\<rfloor>; d = x - real_of_int f
      in if d < 1 / 2 then f else if 1 / 2 < d then f + 1 else if even f then f else f + 1)"

definition default_newstrides :: "backend \<Rightarrow> int \<times> int \<Rightarrow> int \<Rightarrow> int \<times> int" where
  "default_newstrides B strides upsample_factor_grid =
     (if upsample_factor_grid = 0 then (cast_nonfinite B, cast_nonfinite B)
      else (round_half_even (real_of_int (fst strides) / real_of_int upsample_factor_grid),
            round_half_even (real_of_int (snd strides) / real_of_int upsample_factor_grid)))"

text \<open>
  The frequency-domain path up to the guard on \<^verbatim>\<open>gSig_filt\<close>:
  \<^verbatim>\<open>
  newshapes = np.add(newstrides, newoverlaps)
  imgs = [it[-1] for it in sliding_window(img, overlaps=newoverlaps, strides=newstrides)]
  xy_grid = [(it[0], it[1]) for it in sliding_window(img, overlaps=newoverlaps, strides=newstrides)]
  start_step = [(it[2], it[3]) for it in sliding_window(img, overlaps=newoverlaps, strides=newstrides)]
  dim_new_grid = tuple(np.add(xy_grid[-1], 1))
  shift_img_x = cv2.resize(shift_img_x, dim_new_grid[::-1], interpolation=cv2.INTER_CUBIC)
  shift_img_y = cv2.resize(shift_img_y, dim_new_grid[::-1], interpolation=cv2.INTER_CUBIC)
  diffs_phase_grid_us = cv2.resize(diffs_phase_grid, dim_new_grid[::-1], interpolation=cv2.INTER_CUBIC)
  num_tiles = np.prod(dim_new_grid)
  max_shear = ...
  total_shifts = [(-x, -y) for x, y in zip(shift_img_x.reshape(num_tiles), shift_img_y.reshape(num_tiles))]
  total_diffs_phase = [dfs for dfs in diffs_phase_grid_us.reshape(num_tiles)]
  \<close>
\<close>

record upsampled =
  new_overlaps :: "int \<times> int"
  new_strides :: "int \<times> int"
  new_tiles :: "fl tile list"
  shift_x_us :: "real array2"
  shift_y_us :: "real array2"
  max_shear :: real
  total_shifts :: "(real \<times> real) list"
  total_diffs_phase :: "real list"

definition upsample_fields ::
  "backend \<Rightarrow> fl array2 \<Rightarrow> int \<times> int \<Rightarrow> int \<times> int \<Rightarrow> (int \<times> int) option \<Rightarrow> (int \<times> int) option \<Rightarrow>
   int \<Rightarrow> real array2 \<times> real array2 \<times> real array2 \<Rightarrow> py_error + upsampled" where
  "upsample_fields B img strides overlaps newoverlaps newstrides upsample_factor_grid field_grids =
     (let newoverlaps = (case newoverlaps of None \<Rightarrow> overlaps | Some v \<Rightarrow> v);
          newstrides = (case newstrides of None \<Rightarrow> default_newstrides B strides upsample_factor_grid
                        | Some v \<Rightarrow> v)
      in case sliding_window img newoverlaps newstrides of
           Inl e \<Rightarrow> Inl e
         | Inr tiles \<Rightarrow>
           let dim_new_grid = grid_dims tiles;
               shift_img_x = resize B (fst field_grids) dim_new_grid;
               shift_img_y = resize B (fst (snd field_grids)) dim_new_grid;
               diffs_phase_grid_us = resize B (snd (snd field_grids)) dim_new_grid;
               num_tiles = fst dim_new_grid * snd dim_new_grid
           in (case max_shear_of shift_img_x shift_img_y of
                 Inl e \<Rightarrow> Inl e
               | Inr shear \<Rightarrow>
                 (case negated_shifts shift_img_x shift_img_y num_tiles of
                    Inl e \<Rightarrow> Inl e
                  | Inr shifts \<Rightarrow>
                    (case flatten_to diffs_phase_grid_us num_tiles of
                       Inl e \<Rightarrow> Inl e
                     | Inr phases \<Rightarrow>
                         Inr \<lparr> new_overlaps = newoverlaps, new_strides = newstrides,
                               new_tiles = tiles, shift_x_us = shift_img_x,
                               shift_y_us = shift_img_y, max_shear = shear,
                               total_shifts = shifts, total_diffs_phase = phases \<rparr>))))"

text \<open>
  After the guard:
  \<^verbatim>\<open>
  imgs = [apply_shifts_dft(im, (sh[0], sh[1]), dffphs, is_freq=False, border_nan=border_nan)
          for im, sh, dffphs in zip(imgs, total_shifts, total_diffs_phase)]
  ...
  weight_matrix = create_weight_matrix_for_blending(img, newoverlaps, newstrides)
  ... (the two loops, see stitch) ...
  return new_img - add_to_movie, total_shifts, start_step, xy_grid
  \<close>
\<close>

definition shifted_patches :: "backend \<Rightarrow> border_mode \<Rightarrow> upsampled \<Rightarrow> fl array2 list" where
  "shifted_patches B border_nan U =
     map (\<lambda>(im, sh, dffphs). apply_shifts_dft B im sh dffphs False border_nan)
       (zip (patches_of (new_tiles U)) (zip (total_shifts U) (total_diffs_phase U)))"

definition patch_items :: "upsampled \<Rightarrow> fl array2 list \<Rightarrow> real array2 list \<Rightarrow> patch_item list" where
  "patch_items U imgs weight_matrix =
     zip (origins_of (new_tiles U)) (zip (grid_of (new_tiles U))
       (zip (map fst (zip imgs (total_shifts U))) weight_matrix))"

definition frequency_branch ::
  "backend \<Rightarrow> fl array2 \<Rightarrow> fl \<Rightarrow> border_mode \<Rightarrow> upsampled \<Rightarrow> py_error + correction" where
  "frequency_branch B img add_to_movie border_nan U =
     (let imgs = shifted_patches B border_nan U;
          newshapes = (fst (new_strides U) + fst (new_overlaps U),
                       snd (new_strides U) + snd (new_overlaps U))
      in case create_weight_matrix_for_blending img (new_overlaps U) (new_strides U) of
           Inl e \<Rightarrow> Inl e
         | Inr weight_matrix \<Rightarrow>
           (case stitch (max_shear U) img newshapes (new_overlaps U)
                   (patch_items U imgs weight_matrix) of
              Inl e \<Rightarrow> Inl e
            | Inr new_img \<Rightarrow>
                Inr (sub_scalar new_img add_to_movie, PatchShifts (total_shifts U),
                     Some (origins_of (new_tiles U)), Some (grid_of (new_tiles U)))))"

text \<open>
  The branch \<^verbatim>\<open>max_deviation_rigid != 0\<close>, with the fast path
  \<^verbatim>\<open>
  if shifts_opencv:
      if gSig_filt is not None:
          img = img_orig
      ...
      m_reg = cv2.remap(img, cv2.resize(shift_img_y.astype(np.float32), dims[::-1]) + x_grid,
                        cv2.resize(shift_img_x.astype(np.float32), dims[::-1]) + y_grid,
                        cv2.INTER_CUBIC, borderMode=cv2.BORDER_REPLICATE)
      total_shifts = [(-x, -y) for x, y in zip(shift_img_x.reshape(num_tiles), shift_img_y.reshape(num_tiles))]
      return m_reg - add_to_movie, total_shifts, None, None
  \<close>
  and the guard
  \<^verbatim>\<open>
  if gSig_filt is not None:
      raise Exception('The use of FFT and filtering options have not been tested. Set opencv=True')
  \<close>
  of the frequency-domain path.
\<close>

definition piecewise_branch ::
  "backend \<Rightarrow> fl array2 \<Rightarrow> fl array2 \<Rightarrow> fl array2 \<Rightarrow> int \<times> int \<Rightarrow> int \<times> int \<Rightarrow> int \<times> int \<Rightarrow>
   (int \<times> int) option \<Rightarrow> (int \<times> int) option \<Rightarrow> int \<Rightarrow> int \<Rightarrow> real option \<Rightarrow> real list \<Rightarrow> fl \<Rightarrow>
   bool \<Rightarrow> (int \<times> int) option \<Rightarrow> border_mode \<Rightarrow> py_error + correction" where
  "piecewise_branch B img img_orig template strides overlaps max_shifts newoverlaps newstrides
       upsample_factor_grid upsample_factor_fft max_deviation_rigid rigid_shts add_to_movie
       shifts_opencv gSig_filt border_nan =
     (case measure_patches B img template strides overlaps max_shifts upsample_factor_fft
             max_deviation_rigid rigid_shts of
        Inl e \<Rightarrow> Inl e
      | Inr (dim_grid, shfts_et_all) \<Rightarrow>
        (case patch_fields dim_grid shfts_et_all of
           Inl e \<Rightarrow> Inl e
         | Inr field_grids \<Rightarrow>
           if shifts_opencv then
             (let img = (if gSig_filt \<noteq> None then img_orig else img);
                  m_reg = remap B img (fst field_grids) (fst (snd field_grids))
              in case negated_shifts (fst field_grids) (fst (snd field_grids)) (fst dim_grid * snd dim_grid) of
                   Inl e \<Rightarrow> Inl e
                 | Inr shifts \<Rightarrow> Inr (sub_scalar m_reg add_to_movie, PatchShifts shifts, None, None))
           else
             (case upsample_fields B img strides overlaps newoverlaps newstrides
                     upsample_factor_grid field_grids of
                Inl e \<Rightarrow> Inl e
              | Inr U \<Rightarrow>
                  if gSig_filt \<noteq> None then Inl PlainException
                  else frequency_branch B img add_to_movie border_nan U)))"

text \<open>
  \<^verbatim>\<open>
  def tile_and_correct(img, template, strides, overlaps, max_shifts, newoverlaps=None, newstrides=None,
                       upsample_factor_grid=4, upsample_factor_fft=10, show_movie=False,
                       max_deviation_rigid=2, add_to_movie=0, shifts_opencv=False, gSig_filt=None,
                       use_cuda=False, border_nan=True):
      img = img.astype(np.float64).copy()
      template = template.astype(np.float64).copy()
      if gSig_filt is not None:
          img_orig = img.copy()
          img = high_pass_filter_space(img_orig, gSig_filt)
      img = img + add_to_movie
      template = template + add_to_movie
      rigid_shts, sfr_freq, diffphase = register_translation(
          img, template, upsample_factor=upsample_factor_fft, max_shifts=max_shifts, use_cuda=use_cuda)
      if max_deviation_rigid == 0:
          ...
      else:
          ...
  \<close>
\<close>

definition tile_and_correct ::
  "backend \<Rightarrow> fl array2 \<Rightarrow> fl array2 \<Rightarrow> int \<times> int \<Rightarrow> int \<times> int \<Rightarrow> int \<times> int \<Rightarrow>
   (int \<times> int) option \<Rightarrow> (int \<times> int) option \<Rightarrow> int \<Rightarrow> int \<Rightarrow> real option \<Rightarrow> fl \<Rightarrow>
   bool \<Rightarrow> (int \<times> int) option \<Rightarrow> border_mode \<Rightarrow> py_error + correction" where
  "tile_and_correct B img template strides overlaps max_shifts newoverlaps newstrides
       upsample_factor_grid upsample_factor_fft max_deviation_rigid add_to_movie
       shifts_opencv gSig_filt border_nan =
     (let img_orig = img;
          img = (case gSig_filt of None \<Rightarrow> img | Some g \<Rightarrow> high_pass_filter_space B img_orig g);
          img = add_scalar img add_to_movie;
          template = add_scalar template add_to_movie
      in case register_translation (numerics B) img template upsample_factor_fft ''real''
                None None max_shifts of
           Inl e \<Rightarrow> Inl e
         | Inr (rigid_shts, sfr_freq, diffphase) \<Rightarrow>
             if max_deviation_rigid = Some 0 then
               rigid_branch B img img_orig sfr_freq diffphase rigid_shts add_to_movie
                 shifts_opencv gSig_filt border_nan
             else
               piecewise_branch B img img_orig template strides overlaps max_shifts newoverlaps
                 newstrides upsample_factor_grid upsample_factor_fft max_deviation_rigid rigid_shts
                 add_to_movie shifts_opencv gSig_filt border_nan)"

text \<open>
  A backend on which the engine can be run: the cross-correlation magnitude at an index
  is the magnitude of the source pixel there (so that the measured shift of a patch is
  the wrapped position of its brightest pixel), the resampling functions return their
  input, and a field is resized by linear interpolation.
\<close>

definition magnitude :: "fl \<Rightarrow> real" where
  "magnitude p = (case p of Fin r \<Rightarrow> \<bar>r\<bar> | _ \<Rightarrow> 0)"

definition image_numerics :: "fl array2 numerics" where
  "image_numerics =
     \<lparr> shape_of = (\<lambda>a. [fst (shape2 a), snd (shape2 a)]),
       dft = Some,
       cross_correlation_abs = (\<lambda>a b idx. magnitude (a ! (idx ! 0) ! (idx ! 1))),
       phase_int = (\<lambda>a b. 0),
       refine = (\<lambda>a b shifts upsample_factor. (shifts, 0)) \<rparr>"

text \<open>
  Linear interpolation with the pixel-centre alignment of OpenCV: entry \<open>i\<close> of \<open>n\<close> is
  read at position \<open>(i + 1/2) * m / n - 1/2\<close> of the \<open>m\<close> source entries, clamped to the
  source.
\<close>

definition sample_position :: "nat \<Rightarrow> nat \<Rightarrow> nat \<Rightarrow> nat \<times> nat \<times> real" where
  "sample_position m n i =
     (let p = max 0 (min (real m - 1) ((real i + 1 / 2) * real m / real n - 1 / 2));
          lo = nat \<lfloor>p\<rfloor>; hi = min (lo + 1) (m - 1)
      in (lo, hi, p - real lo))"

definition interpolate_list :: "real list \<Rightarrow> nat \<Rightarrow> real list" where
  "interpolate_list xs n =
     map (\<lambda>i. case sample_position (length xs) n i of
                 (lo, hi, t) \<Rightarrow> (1 - t) * xs ! lo + t * xs ! hi) [0..<n]"

definition resize_linear :: "real array2 \<Rightarrow> nat \<times> nat \<Rightarrow> real array2" where
  "resize_linear field shape =
     (let rows = map (\<lambda>r. interpolate_list r (snd shape)) field
      in map (\<lambda>i. case sample_position (length rows) (fst shape) i of
                      (lo, hi, t) \<Rightarrow> map2 (\<lambda>a b. (1 - t) * a + t * b) (rows ! lo) (rows ! hi))
           [0..<fst shape])"

definition plain_backend :: backend where
  "plain_backend =
     \<lparr> numerics = image_numerics,
       high_pass_filter_space = (\<lambda>img g. img),
       warp_affine = (\<lambda>img shift. img),
       apply_shifts_dft = (\<lambda>a shifts diffphase is_freq border_nan. a),
       remap = (\<lambda>img shift_img_x shift_img_y. img),
       resize = resize_linear,
       cast_nonfinite = - 9223372036854775808 \<rparr>"
section \<open>Proofs: slices and the patch grid\<close>

lemma slice_idx_in: "0 \<le> i \<Longrightarrow> i \<le> int n \<Longrightarrow> slice_idx n i = nat i"
  by (simp add: slice_idx_def)

lemma py_slice_window:
  assumes "0 \<le> x" "0 \<le> w" "x + w \<le> int (length xs)"
  shows "py_slice xs x (x + w) = take (nat w) (drop (nat x) xs)"
proof -
  have "slice_idx (length xs) x = nat x" using assms by (simp add: slice_idx_in)
  moreover have "slice_idx (length xs) (x + w) = nat (x + w)" using assms by (simp add: slice_idx_in)
  moreover have "nat (x + w) - nat x = nat w" using assms by simp
  ultimately show ?thesis by (simp add: py_slice_def)
qed

lemma length_py_slice_window:
  assumes "0 \<le> x" "0 \<le> w" "x + w \<le> int (length xs)"
  shows "length (py_slice xs x (x + w)) = nat w"
  using assms by (simp add: py_slice_window) 

lemma nth_py_slice_window:
  assumes "0 \<le> x" "0 \<le> w" "x + w \<le> int (length xs)" "k < nat w"
  shows "py_slice xs x (x + w) ! k = xs ! (nat x + k)"
  using assms by (simp add: py_slice_window)

lemma is_array2_nth: "is_array2 h w a \<Longrightarrow> i < h \<Longrightarrow> length (a ! i) = w"
  by (auto simp: is_array2_def list_all_length)

lemma is_array2_slice2:
  assumes a: "is_array2 h w a"
    and x: "0 \<le> x" "0 \<le> n0" "x + n0 \<le> int h"
    and y: "0 \<le> y" "0 \<le> n1" "y + n1 \<le> int w"
  shows "is_array2 (nat n0) (nat n1) (slice2 a x (x + n0) y (y + n1))"
proof -
  have la: "length a = h" using a by (simp add: is_array2_def)
  have rows: "py_slice a x (x + n0) = take (nat n0) (drop (nat x) a)"
    using x la by (simp add: py_slice_window)
  have "\<forall>r \<in> set (take (nat n0) (drop (nat x) a)). length r = w"
    using a by (auto simp: is_array2_def list_all_iff dest!: in_set_takeD in_set_dropD)
  then have "\<forall>r \<in> set (py_slice a x (x + n0)). length (py_slice r y (y + n1)) = nat n1"
    using y rows by (simp add: length_py_slice_window)
  moreover have "length (py_slice a x (x + n0)) = nat n0"
    using x la by (simp add: length_py_slice_window)
  ultimately show ?thesis by (simp add: is_array2_def slice2_def list_all_iff)
qed

lemma nth_slice2:
  assumes a: "is_array2 h w a"
    and x: "0 \<le> x" "0 \<le> n0" "x + n0 \<le> int h"
    and y: "0 \<le> y" "0 \<le> n1" "y + n1 \<le> int w"
    and k: "k < nat n0" "l < nat n1"
  shows "slice2 a x (x + n0) y (y + n1) ! k ! l = a ! (nat x + k) ! (nat y + l)"
proof -
  have la: "length a = h" using a by (simp add: is_array2_def)
  have len: "length (py_slice a x (x + n0)) = nat n0"
    using x la by (simp add: length_py_slice_window)
  have row: "py_slice a x (x + n0) ! k = a ! (nat x + k)"
    using x la k by (simp add: nth_py_slice_window)
  have "nat x + k < h" using x k by linarith
  then have "length (a ! (nat x + k)) = w" using a by (rule is_array2_nth[rotated])
  then have "py_slice (a ! (nat x + k)) y (y + n1) ! l = a ! (nat x + k) ! (nat y + l)"
    using y k by (simp add: nth_py_slice_window)
  then show ?thesis using len k row by (simp add: slice2_def)
qed

lemma grid_range_Inr:
  assumes "0 < s"
  shows "grid_range e w s = Inr (map (\<lambda>k. int k * s) [0..<range_len 0 (int e - w) s] @ [int e - w])"
  using assms by (simp add: grid_range_def py_range_def)

lemma div_mult_bounds:
  fixes a s :: int
  assumes "0 < s"
  shows "(a div s) * s \<le> a" and "a < (a div s) * s + s"
proof -
  have e: "(a div s) * s + a mod s = a" by simp
  have "0 \<le> a mod s" "a mod s < s" using assms by simp_all
  then show "(a div s) * s \<le> a" and "a < (a div s) * s + s" using e by linarith+
qed

lemma grid_range_bounds:
  assumes "0 < s" "w \<le> int e" "x \<in> set (map (\<lambda>k. int k * s) [0..<range_len 0 (int e - w) s] @ [int e - w])"
  shows "0 \<le> x \<and> x \<le> int e - w"
proof (cases "x = int e - w")
  case True then show ?thesis using assms by simp
next
  case False
  then obtain k where k: "k < range_len 0 (int e - w) s" "x = int k * s" using assms by auto
  then have pos: "0 < int e - w" using assms(1) by (auto simp: range_len_def split: if_splits)
  have "int k \<le> (int e - w - 1) div s" using k assms pos by (simp add: range_len_def)
  then have "int k * s \<le> ((int e - w - 1) div s) * s" using assms by (simp add: mult_right_mono)
  also have "\<dots> \<le> int e - w - 1" using assms(1) by (rule div_mult_bounds)
  finally show ?thesis using k assms by simp
qed

lemma grid_range_cover:
  assumes s: "0 < s" and o: "0 \<le> ov" and w: "s + ov \<le> int e" and i: "i < e"
  shows "\<exists>x \<in> set (map (\<lambda>k. int k * s) [0..<range_len 0 (int e - (s + ov)) s] @ [int e - (s + ov)]).
           x \<le> int i \<and> int i < x + (s + ov)"
proof (cases "int e - (s + ov) \<le> int i")
  case True
  then show ?thesis using i by auto
next
  case False
  define k where "k = nat (int i div s)"
  have ik: "int k = int i div s" using s by (simp add: k_def pos_imp_zdiv_nonneg_iff)
  have "int i div s \<le> (int e - (s + ov) - 1) div s"
    using False s by (intro zdiv_mono1) auto
  then have "k < range_len 0 (int e - (s + ov)) s"
    using False ik by (simp add: range_len_def s)
  moreover have "int k * s \<le> int i" unfolding ik using s by (rule div_mult_bounds)
  moreover have "int i < int k * s + s" unfolding ik using s by (rule div_mult_bounds)
  ultimately show ?thesis using o by (intro bexI[of _ "int k * s"]) auto
qed

lemma set_tiles_of:
  "set (tiles_of img n0 n1 r1 r2) =
     {(d1, d2, r1 ! d1, r2 ! d2, slice2 img (r1 ! d1) (r1 ! d1 + n0) (r2 ! d2) (r2 ! d2 + n1)) | d1 d2.
        d1 < length r1 \<and> d2 < length r2}" (is "?L = ?R")
proof
  show "?L \<subseteq> ?R" by (auto simp: tiles_of_def in_set_enumerate_eq)
next
  show "?R \<subseteq> ?L"
  proof
    fix t assume "t \<in> ?R"
    then obtain d1 d2 where d: "d1 < length r1" "d2 < length r2"
      and t: "t = (d1, d2, r1 ! d1, r2 ! d2,
                   slice2 img (r1 ! d1) (r1 ! d1 + n0) (r2 ! d2) (r2 ! d2 + n1))" by blast
    have m1: "(d1, r1 ! d1) \<in> set (enumerate 0 r1)" using d by (simp add: in_set_enumerate_eq)
    have m2: "(d2, r2 ! d2) \<in> set (enumerate 0 r2)" using d by (simp add: in_set_enumerate_eq)
    have "t \<in> set ((\<lambda>(dim_1, x). map (\<lambda>(dim_2, y).
                 (dim_1, dim_2, x, y, slice2 img x (x + n0) y (y + n1)))
                 (enumerate 0 r2)) (d1, r1 ! d1))"
      unfolding t using m2 by (simp add: image_iff) (rule bexI[of _ "(d2, r2 ! d2)"], simp_all)
    then show "t \<in> ?L" unfolding tiles_of_def set_concat set_map
      using m1 by blast
  qed
qed

lemma last_enumerate_snoc: "last (enumerate n (xs @ [z])) = (n + length xs, z)"
  by (simp add: enumerate_append_eq)

lemma last_tiles_of:
  "last (tiles_of img n0 n1 (r1 @ [a]) (r2 @ [b])) =
     (length r1, length r2, a, b, slice2 img a (a + n0) b (b + n1))"
proof -
  let ?f = "(\<lambda>(dim_1, x). map (\<lambda>(dim_2, y).
                 (dim_1, dim_2, x, y, slice2 img x (x + n0) y (y + n1)))
                 (enumerate 0 (r2 @ [b])))"
  have "tiles_of img n0 n1 (r1 @ [a]) (r2 @ [b]) =
          concat (map ?f (enumerate 0 r1)) @ ?f (length r1, a)"
    by (simp add: tiles_of_def enumerate_append_eq)
  moreover have "?f (length r1, a) \<noteq> []" by (simp add: enumerate_append_eq)
  moreover have "last (?f (length r1, a)) = (length r1, length r2, a, b, slice2 img a (a + n0) b (b + n1))"
    by (simp add: enumerate_append_eq)
  ultimately show ?thesis by simp
qed

lemma sliding_window_tiles_of:
  assumes "0 < s0" "0 < s1"
  shows "sliding_window img (o0, o1) (s0, s1) =
     Inr (tiles_of img (o0 + s0) (o1 + s1)
            (map (\<lambda>k. int k * s0) [0..<range_len 0 (int (fst (shape2 img)) - (o0 + s0)) s0] @ [int (fst (shape2 img)) - (o0 + s0)])
            (map (\<lambda>k. int k * s1) [0..<range_len 0 (int (snd (shape2 img)) - (o1 + s1)) s1] @ [int (snd (shape2 img)) - (o1 + s1)]))"
  using assms by (simp add: sliding_window_def grid_range_Inr tiles_of_def)

lemma shape2_array: "is_array2 h w a \<Longrightarrow> 0 < h \<Longrightarrow> shape2 a = (h, w)"
  by (cases a) (auto simp: is_array2_def shape2_def)

text \<open>
  Claim C3.  For a 2D array of shape \<open>(h, w)\<close> and a grid with positive strides,
  non-negative overlaps and \<open>stride + overlap \<le> extent\<close> in both dimensions,
  \<open>sliding_window\<close> yields a non-empty list of tiles; every patch has shape exactly
  \<open>strides + overlaps\<close>; every array index \<open>(i, j)\<close> lies in some tile, whose patch
  holds the array's value at that index; and the origin of the last tile is
  \<open>extent - (stride + overlap)\<close> in each dimension, so that the last patch ends at
  the array boundary.
\<close>

theorem sliding_window_covers:
  assumes arr: "is_array2 h w img"
    and s: "0 < s0" "0 < s1" and ov: "0 \<le> o0" "0 \<le> o1"
    and fit: "s0 + o0 \<le> int h" "s1 + o1 \<le> int w"
  shows "\<exists>tiles. sliding_window img (o0, o1) (s0, s1) = Inr tiles \<and> tiles \<noteq> [] \<and>
     (\<forall>(d1, d2, x, y, patch) \<in> set tiles. is_array2 (nat (s0 + o0)) (nat (s1 + o1)) patch) \<and>
     (\<forall>i<h. \<forall>j<w. \<exists>(d1, d2, x, y, patch) \<in> set tiles.
         x \<le> int i \<and> int i < x + (s0 + o0) \<and> y \<le> int j \<and> int j < y + (s1 + o1) \<and>
         patch ! nat (int i - x) ! nat (int j - y) = img ! i ! j) \<and>
     (case last tiles of (d1, d2, x, y, patch) \<Rightarrow>
         x = int h - (s0 + o0) \<and> y = int w - (s1 + o1))"
proof -
  have hpos: "0 < h" using s ov fit by linarith
  have sh: "shape2 img = (h, w)" using arr hpos by (rule shape2_array)
  define n0 where "n0 = s0 + o0"
  define n1 where "n1 = s1 + o1"
  define r1 where "r1 = map (\<lambda>k. int k * s0) [0..<range_len 0 (int h - n0) s0] @ [int h - n0]"
  define r2 where "r2 = map (\<lambda>k. int k * s1) [0..<range_len 0 (int w - n1) s1] @ [int w - n1]"
  define tiles where "tiles = tiles_of img n0 n1 r1 r2"
  have n: "0 \<le> n0" "0 \<le> n1" "n0 \<le> int h" "n1 \<le> int w" using s ov fit by (simp_all add: n0_def n1_def)
  have sw: "sliding_window img (o0, o1) (s0, s1) = Inr tiles"
    using s sh by (simp add: sliding_window_tiles_of tiles_def r1_def r2_def n0_def n1_def add.commute)
  have b1: "\<And>x. x \<in> set r1 \<Longrightarrow> 0 \<le> x \<and> x + n0 \<le> int h"
    using grid_range_bounds[OF s(1) n(3)] unfolding r1_def by fastforce
  have b2: "\<And>y. y \<in> set r2 \<Longrightarrow> 0 \<le> y \<and> y + n1 \<le> int w"
    using grid_range_bounds[OF s(2) n(4)] unfolding r2_def by fastforce
  have ne: "tiles \<noteq> []"
  proof -
    have "(0, 0, r1 ! 0, r2 ! 0, slice2 img (r1 ! 0) (r1 ! 0 + n0) (r2 ! 0) (r2 ! 0 + n1)) \<in> set tiles"
      unfolding tiles_def set_tiles_of by (auto simp: r1_def r2_def)
    then show ?thesis by auto
  qed
  have shape: "\<forall>(d1, d2, x, y, patch) \<in> set tiles. is_array2 (nat n0) (nat n1) patch"
  proof -
    { fix d1 d2 assume d: "d1 < length r1" "d2 < length r2"
      have "is_array2 (nat n0) (nat n1) (slice2 img (r1 ! d1) (r1 ! d1 + n0) (r2 ! d2) (r2 ! d2 + n1))"
        using b1[of "r1 ! d1"] b2[of "r2 ! d2"] d n by (intro is_array2_slice2[OF arr]) auto }
    then show ?thesis unfolding tiles_def set_tiles_of by auto
  qed
  have cover: "\<forall>i<h. \<forall>j<w. \<exists>(d1, d2, x, y, patch) \<in> set tiles.
         x \<le> int i \<and> int i < x + n0 \<and> y \<le> int j \<and> int j < y + n1 \<and>
         patch ! nat (int i - x) ! nat (int j - y) = img ! i ! j"
  proof (intro allI impI)
    fix i j assume ij: "i < h" "j < w"
    obtain x where x: "x \<in> set r1" "x \<le> int i" "int i < x + n0"
      using grid_range_cover[OF s(1) ov(1) fit(1) ij(1)] unfolding r1_def n0_def by blast
    obtain y where y: "y \<in> set r2" "y \<le> int j" "int j < y + n1"
      using grid_range_cover[OF s(2) ov(2) fit(2) ij(2)] unfolding r2_def n1_def by blast
    obtain d1 where d1: "d1 < length r1" "r1 ! d1 = x" using x(1) by (auto simp: in_set_conv_nth)
    obtain d2 where d2: "d2 < length r2" "r2 ! d2 = y" using y(1) by (auto simp: in_set_conv_nth)
    have mem: "(d1, d2, x, y, slice2 img x (x + n0) y (y + n1)) \<in> set tiles"
      unfolding tiles_def set_tiles_of using d1 d2 by auto
    have "slice2 img x (x + n0) y (y + n1) ! nat (int i - x) ! nat (int j - y)
            = img ! (nat x + nat (int i - x)) ! (nat y + nat (int j - y))"
      using b1[OF x(1)] b2[OF y(1)] x y n by (intro nth_slice2[OF arr]) auto
    also have "\<dots> = img ! i ! j"
      using b1[OF x(1)] b2[OF y(1)] x y by (simp add: nat_add_distrib[symmetric])
    finally show "\<exists>(d1, d2, x, y, patch) \<in> set tiles.
         x \<le> int i \<and> int i < x + n0 \<and> y \<le> int j \<and> int j < y + n1 \<and>
         patch ! nat (int i - x) ! nat (int j - y) = img ! i ! j"
      using mem x y by blast
  qed
  have lst: "case last tiles of (d1, d2, x, y, patch) \<Rightarrow> x = int h - n0 \<and> y = int w - n1"
    unfolding tiles_def r1_def r2_def last_tiles_of by simp
  show ?thesis
    unfolding sw using ne shape cover lst unfolding n0_def n1_def
    by (intro exI[of _ tiles] conjI refl) assumption+
qed


theorem sliding_window_covers_witness:
  "is_array2 3 3 [[1, 2, 3], [4, 5, 6], [7, 8, 9 :: int]] \<and>
   (\<exists>tiles. sliding_window [[1, 2, 3], [4, 5, 6], [7, 8, 9 :: int]] (1, 1) (1, 1) = Inr tiles \<and>
      tiles \<noteq> [] \<and>
      (\<forall>(d1, d2, x, y, patch) \<in> set tiles. is_array2 (nat (1 + 1)) (nat (1 + 1)) patch) \<and>
      (\<forall>i<3. \<forall>j<3. \<exists>(d1, d2, x, y, patch) \<in> set tiles.
          x \<le> int i \<and> int i < x + (1 + 1) \<and> y \<le> int j \<and> int j < y + (1 + 1) \<and>
          patch ! nat (int i - x) ! nat (int j - y) = [[1, 2, 3], [4, 5, 6], [7, 8, 9 :: int]] ! i ! j) \<and>
      (case last tiles of (d1, d2, x, y, patch) \<Rightarrow> x = int 3 - (1 + 1) \<and> y = int 3 - (1 + 1)))"
proof -
  have a: "is_array2 3 3 [[1, 2, 3], [4, 5, 6], [7, 8, 9 :: int]]"
    by (simp add: is_array2_def)
  show ?thesis
    using a sliding_window_covers [OF a, of 1 1 1 1] by simp
qed

section \<open>Proofs: register\_translation\<close>

lemma zero_degenerate_Inr:
  "zero_degenerate shape d shifts = Inr r \<Longrightarrow>
     length r = length shifts \<and>
     (\<forall>k < length shape. shape ! k = 1 \<longrightarrow> d + k < length r \<and> r ! (d + k) = 0) \<and>
     (\<forall>j < d. j < length shifts \<longrightarrow> r ! j = shifts ! j)"
proof (induction shape arbitrary: d shifts)
  case Nil
  then show ?case by simp
next
  case (Cons n shape)
  show ?case
  proof (cases "n = 1")
    case True
    with Cons.prems have d: "d < length shifts"
      and rec: "zero_degenerate shape (Suc d) (shifts[d := 0]) = Inr r"
      by (auto split: if_splits)
    note ih = Cons.IH[OF rec]
    have len: "length r = length shifts" using ih by simp
    have z: "\<forall>k < length shape. shape ! k = 1 \<longrightarrow> Suc d + k < length r \<and> r ! (Suc d + k) = 0"
      using ih by blast
    have keep: "\<forall>j < Suc d. j < length shifts \<longrightarrow> r ! j = (shifts[d := 0]) ! j"
      using ih by simp
    have r0: "r ! d = 0" using keep d by simp
    have "\<forall>k < length (n # shape). (n # shape) ! k = 1 \<longrightarrow> d + k < length r \<and> r ! (d + k) = 0"
    proof (intro allI impI)
      fix k assume k: "k < length (n # shape)" "(n # shape) ! k = 1"
      show "d + k < length r \<and> r ! (d + k) = 0"
      proof (cases k)
        case 0 then show ?thesis using r0 d len by simp
      next
        case (Suc k') then show ?thesis using z k by simp
      qed
    qed
    moreover have "\<forall>j < d. j < length shifts \<longrightarrow> r ! j = shifts ! j" using keep by simp
    ultimately show ?thesis using len by blast
  next
    case False
    with Cons.prems have rec: "zero_degenerate shape (Suc d) shifts = Inr r" by simp
    note ih = Cons.IH[OF rec]
    have len: "length r = length shifts" using ih by simp
    have z: "\<forall>k < length shape. shape ! k = 1 \<longrightarrow> Suc d + k < length r \<and> r ! (Suc d + k) = 0"
      using ih by blast
    have keep: "\<forall>j < Suc d. j < length shifts \<longrightarrow> r ! j = shifts ! j"
      using ih by blast
    have "\<forall>k < length (n # shape). (n # shape) ! k = 1 \<longrightarrow> d + k < length r \<and> r ! (d + k) = 0"
    proof (intro allI impI)
      fix k assume k: "k < length (n # shape)" "(n # shape) ! k = 1"
      show "d + k < length r \<and> r ! (d + k) = 0"
      proof (cases k)
        case 0 then show ?thesis using k False by simp
      next
        case (Suc k') then show ?thesis using z k by simp
      qed
    qed
    moreover have "\<forall>j < d. j < length shifts \<longrightarrow> r ! j = shifts ! j" using keep by simp
    ultimately show ?thesis using len by blast
  qed
qed

lemma zero_degenerate_total:
  "d + length shape \<le> length shifts \<Longrightarrow> \<exists>r. zero_degenerate shape d shifts = Inr r"
  by (induction shape arbitrary: d shifts) auto

lemma argmax_mem:
  "argmax shape a = Inr m \<Longrightarrow> m \<in> set (all_indices shape)"
proof -
  have sel: "foldl (\<lambda>best j. if a best < a j then j else best) i xs \<in> set (i # xs)" for i xs
    by (induction xs arbitrary: i) (auto split: if_splits)
  assume "argmax shape a = Inr m"
  then show ?thesis using sel
    by (auto simp: argmax_def split: list.splits)
qed

lemma argmax_length: "argmax shape a = Inr m \<Longrightarrow> length m = length shape"
  by (drule argmax_mem) (auto simp: all_indices_def in_set_product_lists_length)

lemma all_indices_nonempty: "\<forall>n \<in> set shape. 0 < n \<Longrightarrow> all_indices shape \<noteq> []"
proof (induction shape)
  case Nil then show ?case by (simp add: all_indices_def)
next
  case (Cons n shape)
  then have "all_indices shape \<noteq> []" "[0..<n] \<noteq> []" by auto
  then show ?case by (auto simp: all_indices_def neq_Nil_conv)
qed

lemma argmax_total: "\<forall>n \<in> set shape. 0 < n \<Longrightarrow> \<exists>m. argmax shape a = Inr m"
  using all_indices_nonempty[of shape] by (auto simp: argmax_def split: list.splits)

lemma wrap_shifts_length: "length m = length shape \<Longrightarrow> length (wrap_shifts shape m) = length shape"
  by (simp add: wrap_shifts_def)

lemma register_translation_Inr_zero:
  assumes rt: "register_translation N src tgt uf space lb ub ms = Inr (shifts, sf, ph)"
    and k: "k < length (shape_of N sf)" "shape_of N sf ! k = 1"
  shows "k < length shifts \<and> shifts ! k = 0"
proof -
  from rt obtain s0 where "zero_degenerate (shape_of N sf) 0 s0 = Inr shifts"
    by (auto simp: register_translation_def Let_def split: if_splits sum.splits prod.splits)
  from zero_degenerate_Inr[OF this] k show ?thesis by auto
qed

lemma register_translation_src_freq:
  assumes rt: "register_translation N src tgt uf space lb ub ms = Inr (shifts, sf, ph)"
  shows "sf = src \<or> dft N src = Some sf"
  using rt
  by (auto simp: register_translation_def to_frequency_def Let_def split: if_splits sum.splits prod.splits option.splits)

lemma mask_cross_corr_total:
  "2 \<le> length shape \<Longrightarrow> (lb = None \<longleftrightarrow> ub = None) \<Longrightarrow> \<exists>m. mask_cross_corr shape lb ub ms a = Inr m"
  by (auto simp: mask_cross_corr_def split: option.splits)

lemma register_translation_returns:
  assumes shapes: "shape_of N src = shape_of N tgt"
    and rank: "length (shape_of N src) = 2" and pos: "\<forall>n \<in> set (shape_of N src). 0 < n"
    and space: "lower space = ''real'' \<or> lower space = ''fourier''"
    and bounds: "lb = None \<longleftrightarrow> ub = None"
    and dft_ok: "\<exists>sf tf. dft N src = Some sf \<and> dft N tgt = Some tf \<and> shape_of N sf = shape_of N src"
    and ref: "\<And>a b s u. length (fst (refine N a b s u)) = length s"
  shows "\<exists>r. register_translation N src tgt uf space lb ub ms = Inr r"
proof -
  obtain sf tf where fr: "to_frequency N space src tgt = Inr (sf, tf)" and sh: "shape_of N sf = shape_of N src"
    using space dft_ok by (auto simp: to_frequency_def)
  let ?shape = "shape_of N sf"
  have r2: "2 \<le> length ?shape" using rank sh by simp
  obtain m where m: "mask_cross_corr ?shape lb ub ms (cross_correlation_abs N sf tf) = Inr m"
    using mask_cross_corr_total[OF r2 bounds] by blast
  obtain mx where mx: "argmax ?shape m = Inr mx" using argmax_total[of ?shape m] pos sh by auto
  have l0: "length (wrap_shifts ?shape mx) = length ?shape"
    using argmax_length[OF mx] by (rule wrap_shifts_length)
  define s1 where "s1 = (if uf = 1 then (wrap_shifts ?shape mx, phase_int N sf tf)
                       else refine N sf tf (wrap_shifts ?shape mx) uf)"
  have "length (fst s1) = length ?shape" using l0 ref by (simp add: s1_def)
  then obtain r where r: "zero_degenerate ?shape 0 (fst s1) = Inr r"
    using zero_degenerate_total[of 0 ?shape "fst s1"] by auto
  have "register_translation N src tgt uf space lb ub ms = Inr (r, sf, snd s1)"
    using shapes rank fr m mx r
    by (cases s1) (auto simp: register_translation_def Let_def s1_def[symmetric])
  then show ?thesis by blast
qed

text \<open>
  Claim C2.  Whatever the contents of the arrays, the upsampling factor, the search
  window and the shift bounds: whenever \<open>register_translation\<close> returns, the shift
  along every axis of length 1 of the input is exactly 0; and on two 2D arrays of the
  same non-empty shape (with \<^verbatim>\<open>space\<close> one of "real" and "fourier", and the bounds given
  both or not at all) it does return.  The transform is assumed to keep the shape of
  its input and the refinement the length of the shift vector.
\<close>

theorem register_translation_degenerate_axis:
  assumes keeps: "\<And>x y. dft N x = Some y \<Longrightarrow> shape_of N y = shape_of N x"
    and ref: "\<And>a b s u. length (fst (refine N a b s u)) = length s"
  shows "(\<forall>shifts src_freq phasediff k.
            register_translation N src tgt uf space lb ub ms = Inr (shifts, src_freq, phasediff) \<and>
            k < length (shape_of N src) \<and> shape_of N src ! k = 1
            \<longrightarrow> k < length shifts \<and> shifts ! k = 0) \<and>
         (shape_of N src = shape_of N tgt \<and> length (shape_of N src) = 2 \<and>
          (\<forall>n \<in> set (shape_of N src). 0 < n) \<and>
          (lower space = ''real'' \<or> lower space = ''fourier'') \<and> (lb = None \<longleftrightarrow> ub = None) \<and>
          dft N src \<noteq> None \<and> dft N tgt \<noteq> None
          \<longrightarrow> (\<exists>r. register_translation N src tgt uf space lb ub ms = Inr r))"
proof (intro conjI allI impI)
  fix shifts src_freq phasediff k
  assume a: "register_translation N src tgt uf space lb ub ms = Inr (shifts, src_freq, phasediff) \<and>
            k < length (shape_of N src) \<and> shape_of N src ! k = 1"
  then have "shape_of N src_freq = shape_of N src"
    using register_translation_src_freq[of N src tgt uf space lb ub ms shifts src_freq phasediff] keeps by auto
  with a register_translation_Inr_zero[of N src tgt uf space lb ub ms shifts src_freq phasediff k]
  show "k < length shifts" and "shifts ! k = 0" by auto
next
  assume a: "shape_of N src = shape_of N tgt \<and> length (shape_of N src) = 2 \<and>
          (\<forall>n \<in> set (shape_of N src). 0 < n) \<and>
          (lower space = ''real'' \<or> lower space = ''fourier'') \<and> (lb = None \<longleftrightarrow> ub = None) \<and>
          dft N src \<noteq> None \<and> dft N tgt \<noteq> None"
  then have "\<exists>sf tf. dft N src = Some sf \<and> dft N tgt = Some tf \<and> shape_of N sf = shape_of N src"
    using keeps by auto
  with a show "\<exists>r. register_translation N src tgt uf space lb ub ms = Inr r"
    by (intro register_translation_returns ref) auto
qed

theorem register_translation_degenerate_axis_witness:
  "\<exists>shifts src_freq phasediff.
     register_translation plain_numerics ([1, 3], [1, 5, 2]) ([1, 3], [1, 2, 7]) 1 ''real''
       None None (10, 10) = Inr (shifts, src_freq, phasediff) \<and>
     0 < length shifts \<and> shifts ! 0 = 0"
proof -
  let ?src = "([1, 3], [1, 5, 2]) :: nat list \<times> real list"
  let ?tgt = "([1, 3], [1, 2, 7]) :: nat list \<times> real list"
  have keeps: "\<And>x y. dft plain_numerics x = Some y \<Longrightarrow> shape_of plain_numerics y = shape_of plain_numerics x"
    by (simp add: plain_numerics_def)
  have ref: "\<And>a b s u. length (fst (refine plain_numerics a b s u)) = length s"
    by (simp add: plain_numerics_def)
  note t = register_translation_degenerate_axis [OF keeps ref, of ?src ?tgt 1 "''real''" None None "(10, 10)"]
  have low: "lower ''real'' = ''real''" by code_simp
  have pre: "shape_of plain_numerics ?src = shape_of plain_numerics ?tgt \<and>
          length (shape_of plain_numerics ?src) = 2 \<and>
          (\<forall>n \<in> set (shape_of plain_numerics ?src). 0 < n) \<and>
          (lower ''real'' = ''real'' \<or> lower ''real'' = ''fourier'') \<and>
          ((None :: (int \<times> int) option) = None \<longleftrightarrow> (None :: (int \<times> int) option) = None) \<and>
          dft plain_numerics ?src \<noteq> None \<and> dft plain_numerics ?tgt \<noteq> None"
    using low by (simp add: plain_numerics_def)
  with t obtain r where r: "register_translation plain_numerics ?src ?tgt 1 ''real'' None None (10, 10) = Inr r"
    by blast
  obtain shifts src_freq phasediff where r': "r = (shifts, src_freq, phasediff)" by (cases r) auto
  have "0 < length (shape_of plain_numerics ?src) \<and> shape_of plain_numerics ?src ! 0 = 1"
    by (simp add: plain_numerics_def)
  with t r r' have "0 < length shifts \<and> shifts ! 0 = 0" by blast
  with r r' show ?thesis by blast
qed

lemma to_frequency_errors:
  "to_frequency N space a b = Inl e \<Longrightarrow> e = Cv2Error \<or> e = ValueError"
  by (auto simp: to_frequency_def split: if_splits option.splits)

lemma mask_cross_corr_errors:
  "mask_cross_corr shape lb ub ms a = Inl e \<Longrightarrow> e = IndexError \<or> e = TypeError"
  by (auto simp: mask_cross_corr_def split: if_splits option.splits)

lemma argmax_errors: "argmax shape a = Inl e \<Longrightarrow> e = ValueError"
  by (auto simp: argmax_def split: list.splits)

lemma zero_degenerate_errors: "zero_degenerate shape d s = Inl e \<Longrightarrow> e = IndexError"
  by (induction shape arbitrary: d s) (auto split: if_splits)

lemma register_translation_late_errors:
  assumes "shape_of N src = shape_of N tgt" "\<not> (length (shape_of N src) \<noteq> 2 \<and> 1 < uf)"
  shows "register_translation N src tgt uf space lb ub ms \<noteq> Inl NotImplementedError"
proof
  assume a: "register_translation N src tgt uf space lb ub ms = Inl NotImplementedError"
  show False
  proof (cases "to_frequency N space src tgt")
    case (Inl e)
    then show False using a assms to_frequency_errors[OF Inl]
      by (auto simp: register_translation_def)
  next
    case (Inr p)
    obtain sf tf where p: "p = (sf, tf)" by (cases p) auto
    show False
    proof (cases "mask_cross_corr (shape_of N sf) lb ub ms (cross_correlation_abs N sf tf)")
      case (Inl e)
      then show False using a assms Inr p mask_cross_corr_errors[OF Inl]
        by (auto simp: register_translation_def)
    next
      case m: (Inr m)
      show False
      proof (cases "argmax (shape_of N sf) m")
        case (Inl e)
        then show False using a assms Inr p m argmax_errors[OF Inl]
          by (auto simp: register_translation_def)
      next
        case mx: (Inr mx)
        define s1 where "s1 = (if uf = 1 then (wrap_shifts (shape_of N sf) mx, phase_int N sf tf)
                       else refine N sf tf (wrap_shifts (shape_of N sf) mx) uf)"
        obtain s ph where s1: "s1 = (s, ph)" by (cases s1) auto
        have "(case zero_degenerate (shape_of N sf) 0 s of Inl e \<Rightarrow> Inl e | Inr shifts \<Rightarrow> Inr (shifts, sf, ph))
                 = (Inl NotImplementedError :: py_error + real list \<times> 'a \<times> real)"
          using a assms Inr p m mx s1
          by (auto simp: register_translation_def Let_def s1_def[symmetric])
        then show False using zero_degenerate_errors[of "shape_of N sf" 0 s]
          by (auto split: sum.splits)
      qed
    qed
  qed
qed

text \<open>
  Claim C6, as amended.  \<open>register_translation\<close> raises ValueError on every call with
  arrays of different shapes, and it raises NotImplementedError exactly when the shapes
  are equal, the rank is not 2 and \<open>upsample_factor > 1\<close>: rank 3 is refused as well.
\<close>

theorem register_translation_errors:
  "(shape_of N src \<noteq> shape_of N tgt \<longrightarrow>
      register_translation N src tgt uf space lb ub ms = Inl ValueError) \<and>
   (register_translation N src tgt uf space lb ub ms = Inl NotImplementedError \<longleftrightarrow>
      shape_of N src = shape_of N tgt \<and> length (shape_of N src) \<noteq> 2 \<and> 1 < uf)"
proof (rule conjI)
  show "shape_of N src \<noteq> shape_of N tgt \<longrightarrow>
      register_translation N src tgt uf space lb ub ms = Inl ValueError"
    by (simp add: register_translation_def)
next
  show "register_translation N src tgt uf space lb ub ms = Inl NotImplementedError \<longleftrightarrow>
      shape_of N src = shape_of N tgt \<and> length (shape_of N src) \<noteq> 2 \<and> 1 < uf"
  proof
    assume a: "register_translation N src tgt uf space lb ub ms = Inl NotImplementedError"
    show "shape_of N src = shape_of N tgt \<and> length (shape_of N src) \<noteq> 2 \<and> 1 < uf"
    proof (rule ccontr)
      assume n: "\<not> (shape_of N src = shape_of N tgt \<and> length (shape_of N src) \<noteq> 2 \<and> 1 < uf)"
      show False
      proof (cases "shape_of N src = shape_of N tgt")
        case True
        with n register_translation_late_errors[of N src tgt uf space lb ub ms] a show False by blast
      next
        case False
        then show False using a by (simp add: register_translation_def)
      qed
    qed
  next
    assume "shape_of N src = shape_of N tgt \<and> length (shape_of N src) \<noteq> 2 \<and> 1 < uf"
    then have "shape_of N src = shape_of N tgt" "length (shape_of N src) \<noteq> 2 \<and> 1 < uf"
      by blast+
    then show "register_translation N src tgt uf space lb ub ms = Inl NotImplementedError"
      unfolding register_translation_def by (simp only: if_True if_False not_False_eq_True simp_thms)
  qed
qed

theorem register_translation_errors_witness:
  "register_translation plain_numerics ([1, 2], [1, 5]) ([2, 1], [1, 2]) 1 ''real'' None None (10, 10)
     = Inl ValueError \<and>
   register_translation plain_numerics ([4], [1, 5, 2, 2]) ([4], [1, 2, 0, 1]) 2 ''real'' None None (10, 10)
     = Inl NotImplementedError"
  using register_translation_errors [of plain_numerics "([1, 2], [1, 5])" "([2, 1], [1, 2])" 1 "''real''" None None "(10, 10)"]
    register_translation_errors [of plain_numerics "([4], [1, 5, 2, 2])" "([4], [1, 2, 0, 1])" 2 "''real''" None None "(10, 10)"]
  by (simp add: plain_numerics_def)

text \<open>
  Claim C6 as stated fails: for two arrays of rank 3 and equal shape with
  \<open>upsample_factor = 2\<close> the function raises NotImplementedError.
\<close>

theorem register_translation_rank3_counterexample:
  "register_translation plain_numerics ([1, 1, 2], [1, 5]) ([1, 1, 2], [1, 2]) 2 ''real'' None None (10, 10)
     = Inl NotImplementedError \<and>
   length (shape_of plain_numerics ([1, 1, 2], [1, 5])) = 3"
  by (simp add: register_translation_def plain_numerics_def)


section \<open>Proofs: the fast shift path\<close>




lemma fl_le_not_nan: "fl_le x y \<Longrightarrow> x \<noteq> NaN \<and> y \<noteq> NaN"
  by (cases x; cases y) auto







lemma map_enumerate_set:
  "set (map (\<lambda>(i, r). f i r) (enumerate 0 a)) = {f i (a ! i) | i. i < length a}"
  by (auto simp: in_set_enumerate_eq image_iff)





lemma is_array2_fill_rows: "is_array2 h w a \<Longrightarrow> is_array2 h w (fill_rows a lo hi v)"
  unfolding fill_rows_def is_array2_def list_all_iff map_enumerate_set by auto

lemma is_array2_fill_cols: "is_array2 h w a \<Longrightarrow> is_array2 h w (fill_cols a lo hi v)"
  unfolding fill_cols_def is_array2_def list_all_iff by auto

















section \<open>Proofs: batch orchestration\<close>

lemma wrapper_events:
  "ev \<in> set (snd (tile_and_correct_wrapper C it t idxs out)) \<Longrightarrow>
     (\<exists>x. ev = Corrected it x) \<or> (out \<noteq> None \<and> (\<exists>x. ev = Persisted it x))"
  by (auto simp: tile_and_correct_wrapper_def split: sum.splits if_splits)

lemma run_chunks_events:
  "ev \<in> set (snd (run_chunks C it t out idxs)) \<Longrightarrow>
     (\<exists>x. ev = Corrected it x) \<or> (out \<noteq> None \<and> (\<exists>x. ev = Persisted it x))"
proof (induction idxs)
  case Nil
  then show ?case by simp
next
  case (Cons idx idxs)
  obtain r1 e1 where w: "tile_and_correct_wrapper C it t idx out = (r1, e1)" by (cases "tile_and_correct_wrapper C it t idx out")
  obtain r2 e2 where r: "run_chunks C it t out idxs = (r2, e2)" by (cases "run_chunks C it t out idxs")
  have "set (snd (run_chunks C it t out (idx # idxs))) \<subseteq> set e1 \<union> set e2"
    using w r by (auto split: sum.splits)
  then have "ev \<in> set e1 \<or> ev \<in> set e2" using Cons.prems by auto
  then show ?case
    using wrapper_events[of ev C it t idx out] Cons.IH w r by auto
qed

lemma run_chunks_persisted:
  "run_chunks C it t out idxs = (r, evs) \<Longrightarrow> Persisted it' x \<in> set evs \<Longrightarrow> it' = it \<and> out \<noteq> None"
  using run_chunks_events[of "Persisted it' x" C it t out idxs] by auto

lemma piecewise_events:
  assumes "Persisted it' x \<in> set (snd (motion_correction_piecewise C it T splits tmpl save_movie bn ns))"
  shows "it' = it \<and> save_movie"
  using assms
  by (auto simp: motion_correction_piecewise_def Let_def
           split: splits.splits sum.splits option.splits prod.splits if_splits
           dest: run_chunks_persisted)

lemma rigid_loop_persisted:
  assumes "n = nat num_iter" "sv \<longrightarrow> n \<le> k"
    and "Persisted it x \<in> set (snd (rigid_loop C T splits ns num_iter smr filtered bn [k..<n] (t, sv, f, r)))"
  shows "int it = num_iter - 1"
  using assms
proof (induction "n - k" arbitrary: k t sv f r)
  case 0
  then show ?case by simp
next
  case (Suc d)
  then have kn: "k < n" by simp
  then have list: "[k..<n] = k # [Suc k..<n]" by (simp add: upt_rec)
  define sv' where "sv' = (if int k = num_iter - 1 then smr else sv)"
  have sv'_last: "sv' \<longrightarrow> int k = num_iter - 1" using Suc.prems(2) kn by (simp add: sv'_def)
  obtain out evs where p: "motion_correction_piecewise C k T splits (Some t) sv' bn ns = (out, evs)"
    by (cases "motion_correction_piecewise C k T splits (Some t) sv' bn ns")
  have here: "Persisted it x \<in> set evs \<Longrightarrow> int it = num_iter - 1"
    using piecewise_events[of it x C k T splits "Some t" sv' bn ns] p sv'_last by simp
  show ?case
  proof (cases out)
    case (Inl e)
    then show ?thesis using Suc.prems(3) p here by (simp add: list Let_def sv'_def[symmetric])
  next
    case (Inr pr)
    obtain f' r' where pr: "pr = (f', r')" by (cases pr)
    define t' where "t' = (if filtered
                           then high_pass C (nanmedian C (map (\<lambda>(shift_info, idxs, tmpl). tmpl) r'))
                           else nanmedian C (map (\<lambda>(shift_info, idxs, tmpl). tmpl) r'))"
    obtain out2 evs2 where rec:
      "rigid_loop C T splits ns num_iter smr filtered bn [Suc k..<n] (t', sv', f', r') = (out2, evs2)"
      by (cases "rigid_loop C T splits ns num_iter smr filtered bn [Suc k..<n] (t', sv', f', r')")
    have "Persisted it x \<in> set evs \<or> Persisted it x \<in> set evs2"
      using Suc.prems(3) p Inr pr rec by (simp add: list Let_def sv'_def[symmetric] t'_def[symmetric])
    moreover have "Persisted it x \<in> set evs2 \<Longrightarrow> int it = num_iter - 1"
    proof -
      assume a: "Persisted it x \<in> set evs2"
      have "sv' \<longrightarrow> n \<le> Suc k" using sv'_last Suc.prems(1) by auto
      moreover have "d = n - Suc k" using Suc.hyps(2) by simp
      ultimately show ?thesis using Suc.hyps(1)[of "Suc k" sv' t' f' r'] Suc.prems(1) a rec by simp
    qed
    ultimately show ?thesis using here by blast
  qed
qed

text \<open>
  The rigid orchestrator persists frames on the final iteration only: every
  \<open>Persisted\<close> event of a run carries the iteration number \<open>num_iter - 1\<close>.
\<close>

lemma rigid_persists_only_last:
  assumes "Persisted it x \<in> set (snd (motion_correct_batch_rigid C T splits ns num_iter template smr add filtered bn))"
  shows "int it = num_iter - 1"
proof -
  define t0 where "t0 = (case template of None \<Rightarrow> estimate_template C | Some t \<Rightarrow> t)"
  obtain out evs where rl:
    "rigid_loop C T splits ns num_iter smr filtered bn [0..<nat num_iter] (t0, False, None, []) = (out, evs)"
    by (cases "rigid_loop C T splits ns num_iter smr filtered bn [0..<nat num_iter] (t0, False, None, [])")
  have "set (snd (motion_correct_batch_rigid C T splits ns num_iter template smr add filtered bn)) \<subseteq> set evs"
    unfolding motion_correct_batch_rigid_def Let_def t0_def[symmetric]
    using rl by (auto split: sum.splits option.splits prod.splits)
  then have "Persisted it x \<in> set (snd (rigid_loop C T splits ns num_iter smr filtered bn [0..<nat num_iter] (t0, False, None, [])))"
    using assms rl by auto
  then show ?thesis using rigid_loop_persisted[of "nat num_iter" num_iter False 0] by blast
qed

text \<open>
  Claim C9.  The rigid orchestrator does what the claim says (lemma above), the
  piecewise-rigid one does not: its statement \<^verbatim>\<open>save_movie = save_movie\<close> under
  \<^verbatim>\<open>if iter_ == num_iter - 1\<close> changes nothing, so the caller's flag reaches
  \<^verbatim>\<open>motion_correction_piecewise\<close> on every iteration.  On a movie of two frames in one
  chunk, with two iterations and saving requested, the piecewise-rigid run persists the
  frames in iteration 0 and again in iteration 1; the rigid run only in iteration 1.
\<close>

theorem pwrigid_persists_every_iteration:
  "snd (motion_correct_batch_pwrigid echo_collaborators 2 (SplitCount 1) None 2 (Some [[Fin 1]])
          True (Fin 0) False ''mov_els_'')
     = [Corrected 0 [0, 1], Persisted 0 [0, 1], Corrected 1 [0, 1], Persisted 1 [0, 1]] \<and>
   snd (motion_correct_batch_rigid echo_collaborators 2 (SplitCount 1) None 2 (Some [[Fin 1]])
          True (Some (Fin 0)) False ''mov_rig_'')
     = [Corrected 0 [0, 1], Corrected 1 [0, 1], Persisted 1 [0, 1]]"
  by code_simp










section \<open>Proofs: blending weights\<close>

lemma nth_map_enumerate:
  "i < length a \<Longrightarrow> map (\<lambda>(i, r). f i r) (enumerate 0 a) ! i = f i (a ! i)"
  by (simp add: nth_enumerate_eq)

























text \<open>
  With an overlap of 0 and more than one patch along a dimension the function raises:
  \<^verbatim>\<open>weight_mat[-0:, :]\<close> is the whole matrix, to which an empty ramp cannot be
  broadcast.
\<close>

lemma weight_matrix_zero_overlap_raises:
  "create_weight_matrix_for_blending (replicate 6 (replicate 6 (0 :: real))) (0, 0) (3, 3)
     = Inl ValueError"
  by code_simp


section \<open>Proofs: the correction engine\<close>

lemma rigid_branch_rejects:
  "gSig_filt \<noteq> None \<Longrightarrow> \<not> shifts_opencv \<Longrightarrow>
     rigid_branch B img img_orig sfr_freq diffphase rigid_shts add_to_movie shifts_opencv gSig_filt border_nan
       = Inl PlainException"
  by (simp add: rigid_branch_def)

lemma piecewise_branch_rejects:
  assumes "gSig_filt \<noteq> None" "\<not> shifts_opencv"
  shows "\<exists>e. piecewise_branch B img img_orig template strides overlaps max_shifts newoverlaps newstrides
       upsample_factor_grid upsample_factor_fft max_deviation_rigid rigid_shts add_to_movie
       shifts_opencv gSig_filt border_nan = Inl e"
proof (cases "measure_patches B img template strides overlaps max_shifts upsample_factor_fft
             max_deviation_rigid rigid_shts")
  case (Inl e)
  then show ?thesis by (simp add: piecewise_branch_def)
next
  case (Inr m)
  obtain dim_grid shfts_et_all where m: "m = (dim_grid, shfts_et_all)" by (cases m)
  show ?thesis
  proof (cases "patch_fields dim_grid shfts_et_all")
    case (Inl e)
    then show ?thesis using Inr m by (simp add: piecewise_branch_def)
  next
    case f: (Inr field_grids)
    show ?thesis
    proof (cases "upsample_fields B img strides overlaps newoverlaps newstrides
                     upsample_factor_grid field_grids")
      case (Inl e)
      then show ?thesis using Inr m f assms by (simp add: piecewise_branch_def)
    next
      case u: (Inr U)
      then show ?thesis using Inr m f assms by (simp add: piecewise_branch_def)
    qed
  qed
qed

lemma measure_patches_applicator:
  "measure_patches (B\<lparr>apply_shifts_dft := f\<rparr>) = measure_patches B"
  by (intro ext) (simp add: measure_patches_def Let_def cong: sum.case_cong option.case_cong prod.case_cong)

lemma upsample_fields_applicator:
  "upsample_fields (B\<lparr>apply_shifts_dft := f\<rparr>) = upsample_fields B"
  by (intro ext)
     (simp add: upsample_fields_def default_newstrides_def Let_def
           cong: sum.case_cong option.case_cong prod.case_cong)

lemma piecewise_branch_applicator:
  assumes "gSig_filt \<noteq> None" "\<not> shifts_opencv"
  shows "piecewise_branch (B\<lparr>apply_shifts_dft := f\<rparr>) img img_orig template strides overlaps max_shifts
       newoverlaps newstrides upsample_factor_grid upsample_factor_fft max_deviation_rigid rigid_shts
       add_to_movie shifts_opencv gSig_filt border_nan
     = piecewise_branch B img img_orig template strides overlaps max_shifts
       newoverlaps newstrides upsample_factor_grid upsample_factor_fft max_deviation_rigid rigid_shts
       add_to_movie shifts_opencv gSig_filt border_nan"
  using assms
  by (simp add: piecewise_branch_def measure_patches_applicator upsample_fields_applicator
           cong: sum.case_cong prod.case_cong)

text \<open>
  Claim C7.  When the spatial high-pass filter is requested (\<^verbatim>\<open>gSig_filt\<close> is not
  \<^verbatim>\<open>None\<close>) and \<^verbatim>\<open>shifts_opencv\<close> is false, every call of \<open>tile_and_correct\<close> ends in an
  exception, in the rigid branch and in the piecewise branch alike; and the outcome of
  the call is the same whatever the frequency-domain shift applicator is, so that no
  corrected frame or patch has been produced when the exception is raised.
\<close>

theorem filter_with_frequency_path_rejected:
  assumes "gSig_filt \<noteq> None" "\<not> shifts_opencv"
  shows "(\<exists>e. tile_and_correct B img template strides overlaps max_shifts newoverlaps newstrides
            upsample_factor_grid upsample_factor_fft max_deviation_rigid add_to_movie
            shifts_opencv gSig_filt border_nan = Inl e) \<and>
         (\<forall>f. tile_and_correct (B\<lparr>apply_shifts_dft := f\<rparr>) img template strides overlaps max_shifts
            newoverlaps newstrides upsample_factor_grid upsample_factor_fft max_deviation_rigid
            add_to_movie shifts_opencv gSig_filt border_nan
          = tile_and_correct B img template strides overlaps max_shifts newoverlaps newstrides
            upsample_factor_grid upsample_factor_fft max_deviation_rigid add_to_movie
            shifts_opencv gSig_filt border_nan)"
proof
  obtain g where g: "gSig_filt = Some g" using assms(1) by auto
  define img1 where "img1 = add_scalar (high_pass_filter_space B img g) add_to_movie"
  define tmpl1 where "tmpl1 = add_scalar template add_to_movie"
  show "\<exists>e. tile_and_correct B img template strides overlaps max_shifts newoverlaps newstrides
            upsample_factor_grid upsample_factor_fft max_deviation_rigid add_to_movie
            shifts_opencv gSig_filt border_nan = Inl e"
  proof (cases "register_translation (numerics B) img1 tmpl1 upsample_factor_fft ''real''
                None None max_shifts")
    case (Inl e)
    then show ?thesis by (simp add: tile_and_correct_def g img1_def tmpl1_def)
  next
    case (Inr r)
    obtain rigid_shts sfr_freq diffphase where r: "r = (rigid_shts, sfr_freq, diffphase)" by (cases r)
    show ?thesis
    proof (cases "max_deviation_rigid = Some 0")
      case True
      then show ?thesis
        using Inr r rigid_branch_rejects[OF assms, of B img1 img sfr_freq diffphase rigid_shts add_to_movie border_nan]
        by (simp add: tile_and_correct_def g img1_def tmpl1_def)
    next
      case False
      then show ?thesis
        using Inr r piecewise_branch_rejects[OF assms, of B img1 img tmpl1 strides overlaps max_shifts
            newoverlaps newstrides upsample_factor_grid upsample_factor_fft max_deviation_rigid
            rigid_shts add_to_movie border_nan]
        by (simp add: tile_and_correct_def g img1_def tmpl1_def)
    qed
  qed
next
  show "\<forall>f. tile_and_correct (B\<lparr>apply_shifts_dft := f\<rparr>) img template strides overlaps max_shifts
            newoverlaps newstrides upsample_factor_grid upsample_factor_fft max_deviation_rigid
            add_to_movie shifts_opencv gSig_filt border_nan
          = tile_and_correct B img template strides overlaps max_shifts newoverlaps newstrides
            upsample_factor_grid upsample_factor_fft max_deviation_rigid add_to_movie
            shifts_opencv gSig_filt border_nan"
    using assms
    by (auto simp: tile_and_correct_def Let_def rigid_branch_rejects piecewise_branch_applicator
             split: option.splits sum.splits)
qed

theorem filter_with_frequency_path_rejected_witness:
  "tile_and_correct plain_backend
      [[Fin 1, Fin 2, Fin 3, Fin 4], [Fin 5, Fin 6, Fin 7, Fin 8], [Fin 9, Fin 1, Fin 2, Fin 3], [Fin 4, Fin 5, Fin 6, Fin 7]]
      [[Fin 1, Fin 2, Fin 3, Fin 4], [Fin 5, Fin 6, Fin 7, Fin 8], [Fin 9, Fin 1, Fin 2, Fin 3], [Fin 4, Fin 5, Fin 6, Fin 7]]
      (2, 2) (1, 1) (2, 2) None None 2 1 (Some 0) (Fin 0) False (Some (1, 1)) BorderFalse
     = Inl PlainException \<and>
   tile_and_correct plain_backend
      [[Fin 1, Fin 2, Fin 3, Fin 4], [Fin 5, Fin 6, Fin 7, Fin 8], [Fin 9, Fin 1, Fin 2, Fin 3], [Fin 4, Fin 5, Fin 6, Fin 7]]
      [[Fin 1, Fin 2, Fin 3, Fin 4], [Fin 5, Fin 6, Fin 7, Fin 8], [Fin 9, Fin 1, Fin 2, Fin 3], [Fin 4, Fin 5, Fin 6, Fin 7]]
      (2, 2) (1, 1) (2, 2) None None 2 1 (Some 1) (Fin 0) False (Some (1, 1)) BorderFalse
     = Inl PlainException"
proof -
  let ?img = "[[Fin 1, Fin 2, Fin 3, Fin 4], [Fin 5, Fin 6, Fin 7, Fin 8], [Fin 9, Fin 1, Fin 2, Fin 3], [Fin 4, Fin 5, Fin 6, Fin 7]]"
  have a: "Some (1 :: int, 1 :: int) \<noteq> None" "\<not> False" by simp_all
  have r: "tile_and_correct plain_backend ?img ?img
      (2, 2) (1, 1) (2, 2) None None 2 1 (Some 0) (Fin 0) False (Some (1, 1)) BorderFalse
     = Inl PlainException" by code_simp
  have p: "tile_and_correct plain_backend ?img ?img
      (2, 2) (1, 1) (2, 2) None None 2 1 (Some 1) (Fin 0) False (Some (1, 1)) BorderFalse
     = Inl PlainException" by code_simp
  note t = filter_with_frequency_path_rejected [OF a, where B = plain_backend
      and img = ?img and template = ?img
      and strides = "(2, 2)" and overlaps = "(1, 1)" and max_shifts = "(2, 2)"
      and newoverlaps = None and newstrides = None and upsample_factor_grid = 2
      and upsample_factor_fft = 1 and max_deviation_rigid = "Some 1" and add_to_movie = "Fin 0"
      and border_nan = BorderFalse]
  then have "\<exists>e. tile_and_correct plain_backend ?img ?img
      (2, 2) (1, 1) (2, 2) None None 2 1 (Some 1) (Fin 0) False (Some (1, 1)) BorderFalse = Inl e"
    by blast
  then show ?thesis using r p by simp
qed


end
